theory Spec2Isabelle
  imports
    Main
    "HOL-Library.Sublist"
    "HOL-Library.Char_ord"
    "HOL-Library.List_Lexorder"
    "HOL-Library.Product_Lexorder"
    "HOL-Library.Multiset"
begin

chapter \<open>The model: sf1r-lite ingestion, recommendation build and job scheduling\<close>

text \<open>
  A shallow embedding of the parts of sf1r-lite that drive document ingestion
  (\<^verbatim>\<open>IndexWorker\<close>), the recommendation bulk build
  (\<^verbatim>\<open>RecommendTaskService\<close>) and the asynchronous job queue
  (\<^verbatim>\<open>JobScheduler\<close>). Every C++ member function that is modelled keeps its
  name. Collaborators whose code lives outside the repository (the id manager, the
  document manager, the sub-stores, the filesystem) appear as explicit state or as
  parameters that say what a call returned.
\<close>

section \<open>Job scheduler (\<^verbatim>\<open>source/core/common/JobScheduler.cpp\<close>)\<close>

text \<open>
  A task is an opaque callable. Running it either returns, or throws
  \<^verbatim>\<open>boost::thread_interrupted\<close>, or throws some other exception.
\<close>

datatype task_outcome = Returns | Throws_thread_interrupted | Throws_exception

type_synonym 'a task = "'a \<times> task_outcome"

text \<open>
  How the worker thread function ends: blocked in \<^verbatim>\<open>pop\<close> on an empty queue,
  returned through \<^verbatim>\<open>catch (boost::thread_interrupted&)\<close>, or left by an
  exception that no handler of the function catches.
\<close>

datatype worker_exit = Waiting_in_pop | Caught_interrupted | Uncaught_exception

text \<open>
  \<^verbatim>\<open>close()\<close> requests an interruption at some moment; \<open>Some k\<close> says the
  request is visible once \<open>k\<close> tasks have completed, \<open>None\<close> that there is none.
\<close>

definition interruption_requested :: "nat option \<Rightarrow> nat \<Rightarrow> bool" where
  "interruption_requested req n = (case req of None \<Rightarrow> False | Some k \<Rightarrow> k \<le> n)"

text \<open>
  \<^verbatim>\<open>runAsynchronousTasks_\<close> (a member name's trailing underscore is dropped
  throughout, since an identifier cannot end with one): the \<^verbatim>\<open>while (true)\<close> loop sits inside a
  single \<^verbatim>\<open>try\<close> whose only handler is for \<^verbatim>\<open>thread_interrupted\<close>.
  The argument list is the queue content in enqueue order, \<open>n\<close> the number of tasks
  completed so far. The result is the list of tasks that were started, and how the
  function ended.
\<close>

fun runAsynchronousTasks ::
  "nat option \<Rightarrow> nat \<Rightarrow> 'a task list \<Rightarrow> 'a list \<times> worker_exit" where
  "runAsynchronousTasks req n [] =
     ([], if interruption_requested req n then Caught_interrupted else Waiting_in_pop)"
| "runAsynchronousTasks req n ((t, out) # ts) =
     (case out of
        Throws_thread_interrupted \<Rightarrow> ([t], Caught_interrupted)
      | Throws_exception \<Rightarrow> ([t], Uncaught_exception)
      | Returns \<Rightarrow>
          if interruption_requested req (Suc n) then ([t], Caught_interrupted)
          else (let (done, ex) = runAsynchronousTasks req (Suc n) ts in (t # done, ex)))"

section \<open>Recommend task service: saving orders
  (\<^verbatim>\<open>source/bundles/recommend/RecommendTaskService.cpp\<close>)\<close>

text \<open>
  \<^verbatim>\<open>OrderItem\<close> as the service reads it: the item id string, the date string,
  the quantity and the query that led to the purchase (the price, a
  \<^verbatim>\<open>double\<close>, plays no part in any decision and is left out).
\<close>

record OrderItem =
  itemIdStr :: string
  dateStr :: string
  quantity :: int
  query :: string

type_synonym itemid_t = nat

text \<open>The three \<^verbatim>\<open>RecommendMatrix\<close> channels the service owns.\<close>

datatype RecommendMatrix = visitMatrix | purchaseMatrix | purchaseCoVisitMatrix

text \<open>
  The sub-stores are collaborators. The record says what each call answers; the calls
  that write are logged, in the order they are made.
\<close>

record stores =
  strIdToItemId :: "string \<Rightarrow> itemid_t option"
  addPurchaseItem :: "string \<Rightarrow> itemid_t list \<Rightarrow> bool"
  counter_get :: "string \<Rightarrow> bool"
  counter_update :: "string \<Rightarrow> bool"

datatype store_call =
    OrderManager_addOrder "itemid_t list"
  | PurchaseManager_addPurchaseItem string "itemid_t list" RecommendMatrix
  | QueryPurchaseCounter_get string
  | QueryPurchaseCounter_update string itemid_t

text \<open>
  \<^verbatim>\<open>convertOrderItemVec_\<close>: stops with \<^verbatim>\<open>false\<close> at the first item
  string that has no item id.
\<close>

fun convertOrderItemVec :: "stores \<Rightarrow> OrderItem list \<Rightarrow> itemid_t list option" where
  "convertOrderItemVec st [] = Some []"
| "convertOrderItemVec st (it # its) =
     (case strIdToItemId st (itemIdStr it) of
        None \<Rightarrow> None
      | Some itemId \<Rightarrow>
          (case convertOrderItemVec st its of
             None \<Rightarrow> None
           | Some itemIdVec \<Rightarrow> Some (itemId # itemIdVec)))"

text \<open>
  \<^verbatim>\<open>insertPurchaseCounter_\<close>: the loop over the index \<open>i\<close> walks both vectors
  in step; \<^verbatim>\<open>itemIdVec[i]\<close> is read only for an item with a query whose
  counter could be fetched. The caller passes vectors of equal length (the assertion
  at the end of \<^verbatim>\<open>convertOrderItemVec_\<close>); a read past the end of
  \<^verbatim>\<open>itemIdVec\<close> is \<open>None\<close>.
\<close>

fun insertPurchaseCounter ::
  "stores \<Rightarrow> OrderItem list \<Rightarrow> itemid_t list \<Rightarrow> (bool \<times> store_call list) option" where
  "insertPurchaseCounter st [] itemIdVec = Some (True, [])"
| "insertPurchaseCounter st (it # its) itemIdVec =
     (if query it = [] then insertPurchaseCounter st its (drop 1 itemIdVec)
      else if \<not> counter_get st (query it) then
        (case insertPurchaseCounter st its (drop 1 itemIdVec) of
           None \<Rightarrow> None
         | Some (result, calls) \<Rightarrow> Some (False, QueryPurchaseCounter_get (query it) # calls))
      else
        (case itemIdVec of
           [] \<Rightarrow> None
         | itemId # rest \<Rightarrow>
             (case insertPurchaseCounter st its rest of
                None \<Rightarrow> None
              | Some (result, calls) \<Rightarrow>
                  Some (counter_update st (query it) \<and> result,
                        QueryPurchaseCounter_get (query it)
                          # QueryPurchaseCounter_update (query it) itemId # calls))))"

text \<open>
  \<^verbatim>\<open>saveOrder_\<close>. The value of \<^verbatim>\<open>orderManager_.addOrder\<close> is not
  looked at; \<^verbatim>\<open>addPurchaseItem(...) && insertPurchaseCounter_(...)\<close> evaluates
  its right operand only when the left one is true.
\<close>

definition saveOrder ::
  "stores \<Rightarrow> string \<Rightarrow> string \<Rightarrow> OrderItem list \<Rightarrow> RecommendMatrix
     \<Rightarrow> (bool \<times> store_call list) option" where
  "saveOrder st userIdStr orderIdStr orderItemVec matrix =
     (if orderItemVec = [] then Some (False, [])
      else
        (case convertOrderItemVec st orderItemVec of
           None \<Rightarrow> Some (False, [])
         | Some itemIdVec \<Rightarrow>
             (if addPurchaseItem st userIdStr itemIdVec then
                (case insertPurchaseCounter st orderItemVec itemIdVec of
                   None \<Rightarrow> None
                 | Some (result, calls) \<Rightarrow>
                     Some (result,
                           OrderManager_addOrder itemIdVec
                             # PurchaseManager_addPurchaseItem userIdStr itemIdVec matrix
                             # calls))
              else
                Some (False,
                      [OrderManager_addOrder itemIdVec,
                       PurchaseManager_addPurchaseItem userIdStr itemIdVec matrix]))))"

text \<open>
  What the counter loop does, said per item: for an item with a query, a
  \<^verbatim>\<open>get\<close>, and after a successful \<^verbatim>\<open>get\<close> an \<^verbatim>\<open>update\<close>.
\<close>

definition counter_calls_of :: "stores \<Rightarrow> OrderItem \<times> itemid_t \<Rightarrow> store_call list" where
  "counter_calls_of st p =
     (if query (fst p) = [] then []
      else if counter_get st (query (fst p))
        then [QueryPurchaseCounter_get (query (fst p)),
              QueryPurchaseCounter_update (query (fst p)) (snd p)]
      else [QueryPurchaseCounter_get (query (fst p))])"

definition counter_ok_of :: "stores \<Rightarrow> OrderItem \<Rightarrow> bool" where
  "counter_ok_of st it =
     (query it = [] \<or> (counter_get st (query it) \<and> counter_update st (query it)))"

text \<open>Two settings of the sub-stores used as examples below.\<close>

definition stores_update_fails :: stores where
  "stores_update_fails =
     \<lparr>strIdToItemId = (\<lambda>s. Some 7), addPurchaseItem = (\<lambda>u ids. True),
      counter_get = (\<lambda>q. True), counter_update = (\<lambda>q. False)\<rparr>"

definition stores_purchase_fails :: stores where
  "stores_purchase_fails =
     \<lparr>strIdToItemId = (\<lambda>s. Some 7), addPurchaseItem = (\<lambda>u ids. False),
      counter_get = (\<lambda>q. True), counter_update = (\<lambda>q. True)\<rparr>"

definition shoes_item :: OrderItem where
  "shoes_item = \<lparr>itemIdStr = ''i7'', dateStr = [], quantity = 1, query = ''shoes''\<rparr>"

section \<open>Recommend task service: order bundles and the \<^verbatim>\<open>OrderMap\<close>\<close>

text \<open>
  A parsed bundle record (\<^verbatim>\<open>SCDDoc\<close>) is a sequence of (property name, value)
  pairs; the conversion between \<^verbatim>\<open>UString\<close> and \<^verbatim>\<open>std::string\<close> is
  taken as the identity.
\<close>

type_synonym SCDDoc = "(string \<times> string) list"

datatype SCD_TYPE = NOT_SCD | INSERT_SCD | UPDATE_SCD | DELETE_SCD | RTYPE_SCD

text \<open>
  \<^verbatim>\<open>OrderMap\<close> is a \<^verbatim>\<open>std::map\<close> from (user id, order id) to the items of
  the order: an association list whose entries stand in ascending key order, the
  order in which \<^verbatim>\<open>saveOrderMap_\<close> walks it.
\<close>

type_synonym OrderKey = "string \<times> string"
type_synonym OrderMap = "(OrderKey \<times> OrderItem list) list"

definition MAX_ORDER_NUM :: nat where
  "MAX_ORDER_NUM = 1000"

text \<open>One invocation of \<^verbatim>\<open>saveOrder_\<close>, with its arguments.\<close>

datatype saveOrder_call = SaveOrder string string "OrderItem list" RecommendMatrix

text \<open>\<^verbatim>\<open>mapIt->second.push_back(orderItem)\<close> at the entry of an existing key.\<close>

fun push_back_at :: "OrderKey \<Rightarrow> OrderItem \<Rightarrow> OrderMap \<Rightarrow> OrderMap" where
  "push_back_at k orderItem [] = []"
| "push_back_at k orderItem ((k', v) # m) =
     (if k' = k then (k', v @ [orderItem]) # m else (k', v) # push_back_at k orderItem m)"

definition saveOrderMap :: "OrderMap \<Rightarrow> saveOrder_call list" where
  "saveOrderMap orderMap =
     map (\<lambda>(k, orderItemVec). SaveOrder (fst k) (snd k) orderItemVec purchaseCoVisitMatrix)
       orderMap"

text \<open>
  \<^verbatim>\<open>loadOrderItem_\<close>: returns the map as it leaves it and the
  \<^verbatim>\<open>saveOrder_\<close> invocations it made. (The assertion that the user id is not
  empty holds for every caller: \<^verbatim>\<open>doc2Order\<close> rejects such a record.)
\<close>

definition loadOrderItem ::
  "string \<Rightarrow> string \<Rightarrow> OrderItem \<Rightarrow> OrderMap \<Rightarrow> OrderMap \<times> saveOrder_call list" where
  "loadOrderItem userIdStr orderIdStr orderItem orderMap =
     (if orderIdStr = [] then
        (orderMap, [SaveOrder userIdStr orderIdStr [orderItem] purchaseCoVisitMatrix])
      else
        (case map_of orderMap (userIdStr, orderIdStr) of
           Some v \<Rightarrow> (push_back_at (userIdStr, orderIdStr) orderItem orderMap, [])
         | None \<Rightarrow>
             if length orderMap \<ge> MAX_ORDER_NUM
             then (insort_key fst ((userIdStr, orderIdStr), [orderItem]) [],
                   saveOrderMap orderMap)
             else (insort_key fst ((userIdStr, orderIdStr), [orderItem]) orderMap, [])))"

text \<open>
  What the bundle files, the parser library and the filesystem answer: \<open>load\<close> is the
  record sequence of a path (\<open>None\<close> when \<^verbatim>\<open>ScdParser::load\<close> fails),
  \<open>checkSCDType\<close> the type read off the file name, \<open>checkSCDFormat\<close> whether a file
  name has the bundle format, \<open>rename_raises\<close> whether \<^verbatim>\<open>bfs::rename\<close> of a
  path raises \<^verbatim>\<open>filesystem_error\<close>, \<open>create_directory_raises\<close> whether
  \<^verbatim>\<open>bfs::create_directory\<close> of the backup directory does, \<open>lexical_cast_int\<close> is
  \<^verbatim>\<open>boost::lexical_cast<int>\<close> (\<open>None\<close> for \<^verbatim>\<open>bad_lexical_cast\<close>) and
  \<open>default_OrderItem\<close> a default-constructed \<^verbatim>\<open>OrderItem\<close>.
\<close>

record scd_env =
  load :: "string \<Rightarrow> SCDDoc list option"
  checkSCDType :: "string \<Rightarrow> SCD_TYPE"
  checkSCDFormat :: "string \<Rightarrow> bool"
  rename_raises :: "string \<Rightarrow> bool"
  create_directory_raises :: bool
  lexical_cast_int :: "string \<Rightarrow> int option"
  default_OrderItem :: OrderItem

text \<open>
  \<^verbatim>\<open>docMap[propName]\<close> after the loop that fills \<^verbatim>\<open>docMap\<close>: the last
  value written for the name, the empty string for a name that never occurred.
\<close>

definition docMap_at :: "SCDDoc \<Rightarrow> string \<Rightarrow> string" where
  "docMap_at doc propName = (case map_of (rev doc) propName of None \<Rightarrow> [] | Some v \<Rightarrow> v)"

definition doc2Order :: "scd_env \<Rightarrow> SCDDoc \<Rightarrow> (string \<times> string \<times> OrderItem) option" where
  "doc2Order env doc =
     (if docMap_at doc ''USERID'' = [] then None
      else if docMap_at doc ''ITEMID'' = [] then None
      else
        Some (docMap_at doc ''USERID'', docMap_at doc ''ORDERID'',
              (default_OrderItem env)
                \<lparr>itemIdStr := docMap_at doc ''ITEMID'',
                 dateStr := docMap_at doc ''DATE'',
                 quantity :=
                   (if docMap_at doc ''quantity'' = [] then quantity (default_OrderItem env)
                    else
                      (case lexical_cast_int env (docMap_at doc ''quantity'') of
                         None \<Rightarrow> quantity (default_OrderItem env)
                       | Some q \<Rightarrow> q))\<rparr>))"

text \<open>
  The record loop of \<^verbatim>\<open>parseOrderSCD_\<close>. A record that
  \<^verbatim>\<open>doc2Order\<close> rejects is skipped by \<^verbatim>\<open>continue\<close>; after every other
  record comes an \<^verbatim>\<open>interruption_point()\<close>, the \<open>n\<close>-th of the build. The
  second component is the map at the end of the loop, \<open>None\<close> when
  \<^verbatim>\<open>thread_interrupted\<close> left the loop.
\<close>

fun parseOrderSCD_loop ::
  "scd_env \<Rightarrow> nat option \<Rightarrow> nat \<Rightarrow> SCDDoc list \<Rightarrow> OrderMap
     \<Rightarrow> saveOrder_call list \<times> OrderMap option \<times> nat" where
  "parseOrderSCD_loop env req n [] orderMap = ([], Some orderMap, n)"
| "parseOrderSCD_loop env req n (doc # docs) orderMap =
     (case doc2Order env doc of
        None \<Rightarrow> parseOrderSCD_loop env req n docs orderMap
      | Some (userIdStr, orderIdStr, orderItem) \<Rightarrow>
          (let (orderMap', calls) = loadOrderItem userIdStr orderIdStr orderItem orderMap in
           if interruption_requested req (Suc n) then (calls, None, Suc n)
           else
             (let (calls', r, n') = parseOrderSCD_loop env req (Suc n) docs orderMap'
              in (calls @ calls', r, n'))))"

text \<open>
  How a function of the build ends: it returns a value, or it is left by
  \<^verbatim>\<open>thread_interrupted\<close>, or by a \<^verbatim>\<open>filesystem_error\<close> that no handler
  on the way catches.
\<close>

datatype build_exit = Returned bool | Thread_interrupted | Threw_filesystem_error

text \<open>\<^verbatim>\<open>parseOrderSCD_\<close>: the \<^verbatim>\<open>saveOrder_\<close> invocations, and how it ends.\<close>

definition parseOrderSCD ::
  "scd_env \<Rightarrow> nat option \<Rightarrow> nat \<Rightarrow> string \<Rightarrow> saveOrder_call list \<times> build_exit \<times> nat" where
  "parseOrderSCD env req n scdPath =
     (case load env scdPath of
        None \<Rightarrow> ([], Returned False, n)
      | Some docs \<Rightarrow>
          if checkSCDType env scdPath \<noteq> INSERT_SCD then ([], Returned False, n)
          else
            (case parseOrderSCD_loop env req n docs [] of
               (calls, None, n') \<Rightarrow> (calls, Thread_interrupted, n')
             | (calls, Some orderMap, n') \<Rightarrow>
                 (calls @ saveOrderMap orderMap, Returned True, n')))"

text \<open>
  The order records of a file that \<^verbatim>\<open>doc2Order\<close> accepts, and the (user, order
  id, item) triples that a sequence of \<^verbatim>\<open>saveOrder_\<close> invocations writes.
\<close>

definition accepted_orders :: "scd_env \<Rightarrow> SCDDoc list \<Rightarrow> (string \<times> string \<times> OrderItem) list" where
  "accepted_orders env docs = List.map_filter (doc2Order env) docs"

fun written_of_call :: "saveOrder_call \<Rightarrow> (string \<times> string \<times> OrderItem) list" where
  "written_of_call (SaveOrder u ord its m) = map (\<lambda>it. (u, ord, it)) its"

definition written_orders :: "saveOrder_call list \<Rightarrow> (string \<times> string \<times> OrderItem) list" where
  "written_orders calls = concat (map written_of_call calls)"

definition held_orders :: "OrderMap \<Rightarrow> (string \<times> string \<times> OrderItem) list" where
  "held_orders orderMap = written_orders (saveOrderMap orderMap)"

text \<open>Examples used below: a map that is full, and a small order bundle.\<close>

definition full_OrderMap :: OrderMap where
  "full_OrderMap = map (\<lambda>n. ((''u'', replicate (Suc n) CHR ''x''), [shoes_item])) [0..<1000]"

definition example_scd_env :: scd_env where
  "example_scd_env =
     \<lparr>load = (\<lambda>p. if p = ''B-00-201101010000-00000-I-C.SCD''
                   then Some [[(''USERID'', ''u1''), (''ITEMID'', ''i7''), (''ORDERID'', ''o1'')],
                              [(''USERID'', ''u2''), (''ITEMID'', ''i8'')],
                              [(''USERID'', ''u1''), (''ITEMID'', ''i9''), (''ORDERID'', ''o1'')]]
                   else if p = ''B-00-201101010000-00001-U-C.SCD''
                   then Some [[(''USERID'', ''u3''), (''ITEMID'', ''i7'')]]
                   else None),
      checkSCDType = (\<lambda>p. if p = ''B-00-201101010000-00000-I-C.SCD'' then INSERT_SCD
                           else UPDATE_SCD),
      checkSCDFormat = (\<lambda>f. True),
      rename_raises = (\<lambda>p. False),
      create_directory_raises = False,
      lexical_cast_int = (\<lambda>s. None),
      default_OrderItem = \<lparr>itemIdStr = [], dateStr = [], quantity = 0, query = []\<rparr>\<rparr>"

section \<open>Recommend task service: the bulk build, its backups and the cron job\<close>











text \<open>The maintenance calls on the sub-stores and on the recommend matrix.\<close>

datatype maintenance_call =
    UserManager_flush | VisitManager_flush | PurchaseManager_flush | CartManager_flush
  | OrderManager_flush | EventManager_flush | RateManager_flush | QueryPurchaseCounter_flush
  | OrderManager_buildFreqItemsets | BuildPurchaseSimMatrix | FlushRecommendMatrix

definition buildFreqItemSet :: "bool \<Rightarrow> maintenance_call list" where
  "buildFreqItemSet freqItemSetEnable =
     (if \<not> freqItemSetEnable then [] else [OrderManager_buildFreqItemsets])"




text \<open>
  \<^verbatim>\<open>flush_\<close> and \<^verbatim>\<open>cronJob_\<close>. \<open>locked\<close> says whether
  \<^verbatim>\<open>buildCollectionMutex_\<close> is held by another thread when the
  \<^verbatim>\<open>scoped_try_lock\<close> is constructed; the lock then owns the mutex exactly when
  it was free.
\<close>

definition flush :: "bool \<Rightarrow> maintenance_call list" where
  "flush needRebuildPurchaseSimMatrix =
     [UserManager_flush, VisitManager_flush, PurchaseManager_flush, CartManager_flush,
      OrderManager_flush, EventManager_flush, RateManager_flush, QueryPurchaseCounter_flush]
     @ (if needRebuildPurchaseSimMatrix then [BuildPurchaseSimMatrix] else [])
     @ [FlushRecommendMatrix]"

definition scoped_try_lock_owns_lock :: "bool \<Rightarrow> bool" where
  "scoped_try_lock_owns_lock locked = (\<not> locked)"

definition cronJob :: "bool \<Rightarrow> bool \<Rightarrow> bool \<Rightarrow> bool \<Rightarrow> maintenance_call list" where
  "cronJob matches_now locked needRebuildPurchaseSimMatrix freqItemSetEnable =
     (if matches_now then
        (if scoped_try_lock_owns_lock locked = False then []
         else flush needRebuildPurchaseSimMatrix @ buildFreqItemSet freqItemSetEnable)
      else [])"

text \<open>
  The directory pair. \<^verbatim>\<open>Directory::copyFrom\<close> is not among the sources: the
  parameter \<open>copyFrom next current\<close> says whether the copy raised
  \<^verbatim>\<open>filesystem_error\<close> and what the target directory is afterwards.
\<close>

record Directory_info =
  name :: string
  parentName :: string
  valid :: bool

record DirectoryRotator =
  currentDirectory :: Directory_info
  nextDirectory :: "Directory_info option"

datatype copy_call = CopyFrom string string

type_synonym copyFrom_t = "Directory_info \<Rightarrow> Directory_info \<Rightarrow> bool \<times> Directory_info"

text \<open>
  \<^verbatim>\<open>backupDataFiles\<close> (recommend build): result, the rotator afterwards, and the
  \<^verbatim>\<open>copyFrom\<close> calls made (target name, source name).
\<close>

definition backupDataFiles ::
  "copyFrom_t \<Rightarrow> DirectoryRotator \<Rightarrow> bool \<times> DirectoryRotator \<times> copy_call list" where
  "backupDataFiles copyFrom directoryRotator =
     (let current = currentDirectory directoryRotator in
      case nextDirectory directoryRotator of
        None \<Rightarrow> (True, directoryRotator, [])
      | Some next \<Rightarrow>
          if name current \<noteq> name next
             \<and> \<not> (valid next \<and> parentName next = name current)
          then
            (let (raised, next') = copyFrom next current in
             (\<not> raised, directoryRotator\<lparr>nextDirectory := Some next'\<rparr>,
              [CopyFrom (name next) (name current)]))
          else (True, directoryRotator, []))"

text \<open>
  \<^verbatim>\<open>IndexWorker::backup_\<close>: the same function with the third conjunct of the
  condition commented out in the source.
\<close>

definition backup ::
  "copyFrom_t \<Rightarrow> DirectoryRotator \<Rightarrow> bool \<times> DirectoryRotator \<times> copy_call list" where
  "backup copyFrom directoryRotator =
     (let current = currentDirectory directoryRotator in
      case nextDirectory directoryRotator of
        None \<Rightarrow> (True, directoryRotator, [])
      | Some next \<Rightarrow>
          if name current \<noteq> name next
          then
            (let (raised, next') = copyFrom next current in
             (\<not> raised, directoryRotator\<lparr>nextDirectory := Some next'\<rparr>,
              [CopyFrom (name next) (name current)]))
          else (True, directoryRotator, []))"

text \<open>
  Modelled from the spec: a directory carries the name of the sibling it was copied
  from and a validity flag, so a copy that does not raise leaves the target valid
  with the source as its parent, under its own name.
\<close>

definition copyFrom_marks_copy :: "copyFrom_t \<Rightarrow> bool" where
  "copyFrom_marks_copy copyFrom =
     (\<forall>next current. \<not> fst (copyFrom next current) \<longrightarrow>
        valid (snd (copyFrom next current))
        \<and> parentName (snd (copyFrom next current)) = name current
        \<and> name (snd (copyFrom next current)) = name next)"

definition copyFrom_example :: copyFrom_t where
  "copyFrom_example next current = (False, next\<lparr>parentName := name current, valid := True\<rparr>)"

definition rotator_fresh :: DirectoryRotator where
  "rotator_fresh =
     \<lparr>currentDirectory = \<lparr>name = ''data-a'', parentName = [], valid = True\<rparr>,
      nextDirectory = Some \<lparr>name = ''data-b'', parentName = [], valid = False\<rparr>\<rparr>"

definition rotator_copied :: DirectoryRotator where
  "rotator_copied =
     \<lparr>currentDirectory = \<lparr>name = ''data-a'', parentName = [], valid = True\<rparr>,
      nextDirectory = Some \<lparr>name = ''data-b'', parentName = ''data-a'', valid = True\<rparr>\<rparr>"



section \<open>Index worker: documents, schema and collaborators
  (\<^verbatim>\<open>IndexWorker\<close>, in \<^verbatim>\<open>source/bundles/recommend/RecommendTaskService.cpp\<close>)\<close>

text \<open>
  \<^verbatim>\<open>docid_t\<close> is an unsigned 32-bit number; the worker only compares and copies
  document ids, so they are natural numbers here. The id \<open>0\<close> is the worker's "no
  document" value (\<^verbatim>\<open>oldId == 0\<close>).
\<close>

type_synonym docid_t = nat

text \<open>
  \<^verbatim>\<open>PropertyValue\<close> is a variant; \<^verbatim>\<open>get<UString>\<close> succeeds on the first
  alternative only and throws \<^verbatim>\<open>bad_get\<close> on the others.
\<close>

datatype PropertyValue =
    PV_UString string
  | PV_CharacterOffsets "nat list"
  | PV_other

record Document =
  doc_id :: docid_t
  doc_properties :: "(string \<times> PropertyValue) list"

text \<open>\<^verbatim>\<open>document.property(name).swap(propData)\<close>: sets the property \<open>name\<close>.\<close>

fun property_set ::
  "string \<Rightarrow> PropertyValue \<Rightarrow> (string \<times> PropertyValue) list \<Rightarrow> (string \<times> PropertyValue) list" where
  "property_set n v [] = [(n, v)]"
| "property_set n v ((n', v') # ps) =
     (if n' = n then (n, v) # ps else (n', v') # property_set n v ps)"

definition set_doc_property :: "string \<Rightarrow> PropertyValue \<Rightarrow> Document \<Rightarrow> Document" where
  "set_doc_property n v d = d\<lparr>doc_properties := property_set n v (doc_properties d)\<rparr>"

text \<open>
  \<^verbatim>\<open>IndexerDocument\<close>: \<^verbatim>\<open>setId\<close> stores the old document id,
  \<^verbatim>\<open>setDocId\<close> the new one; the indexed fields play no part below.
\<close>

record IndexerDocument =
  idx_id :: docid_t
  idx_docId :: docid_t

datatype PropertyDataType =
    STRING_PROPERTY_TYPE | INT_PROPERTY_TYPE | FLOAT_PROPERTY_TYPE | NOMINAL_PROPERTY_TYPE
  | UNKNOWN_DATA_PROPERTY_TYPE

record PropertyConfig =
  propertyName :: string
  propertyType :: PropertyDataType
  isIndex :: bool
  isAnalyzed :: bool
  isFilter :: bool
  analyzerId :: string
  isSnippet :: bool
  isSummary :: bool
  summaryNum :: nat
  displayLength :: nat

text \<open>
  \<^verbatim>\<open>boost::iequals\<close> on property names: equality up to the case of the ASCII
  letters.
\<close>

definition to_lower :: "char \<Rightarrow> char" where
  "to_lower c =
     (if (65::nat) \<le> of_char c \<and> of_char c \<le> (90::nat)
      then char_of (of_char c + (32::nat)) else c)"

definition iequals :: "string \<Rightarrow> string \<Rightarrow> bool" where
  "iequals a b = (map to_lower a = map to_lower b)"

definition DOCID :: string where "DOCID = ''DOCID''"
definition DATE :: string where "DATE = ''DATE''"

text \<open>
  The bundle configuration and the helpers of \<^verbatim>\<open>Utilities\<close> and of other
  managers that are not among the sources, as parameters:
  \<open>schema_find\<close> is \<^verbatim>\<open>indexSchema_.find\<close> by property name,
  \<open>md5ToUint128\<close> the content hash of a DOCID (\<open>None\<close> when it throws: the callers
  in \<^verbatim>\<open>logCreatedDocToLogServer\<close> and \<^verbatim>\<open>destroyDocument\<close> guard it with a
  handler for \<^verbatim>\<open>std::exception\<close>, the callers modelled here do not),
  \<open>createTimeStampInSeconds\<close> the time stamp and the date string computed from a DATE
  value, \<open>date_of_timestamp\<close> the date string synthesised from the build's time stamp,
  \<open>makeSentenceBlocks\<close> the summarizer's offsets, \<open>old_index_fields\<close> the
  indexer document that the property loop of \<^verbatim>\<open>preparePartialDocument_\<close>
  builds from the new and the stored document, and \<open>cleared_IndexerDocument\<close> an
  indexer document after \<^verbatim>\<open>clear()\<close>.
\<close>

record index_config =
  schema_find :: "string \<Rightarrow> PropertyConfig option"
  productSourceField :: string
  dateProperty_name :: string
  md5ToUint128 :: "string \<Rightarrow> nat option"
  createTimeStampInSeconds :: "string \<Rightarrow> int \<times> string"
  date_of_timestamp :: "int \<Rightarrow> string"
  makeSentenceBlocks :: "string \<Rightarrow> nat \<Rightarrow> nat \<Rightarrow> nat list"
  old_index_fields :: "Document \<Rightarrow> Document \<Rightarrow> IndexerDocument"
  cleared_IndexerDocument :: IndexerDocument

text \<open>
  Modelled from the spec: the id manager (a library outside the repository). It maps
  the hash of a DOCID to at most one live document id; \<open>resolve\<close> is
  \<^verbatim>\<open>getDocIdByDocName(hash, id, false)\<close>; \<open>assign_new\<close> is
  \<^verbatim>\<open>getDocIdByDocName(hash, id)\<close>, which answers \<^verbatim>\<open>true\<close> with the id of
  a known hash and \<^verbatim>\<open>false\<close> with a fresh id for a new one;
  \<open>update_existing\<close> is \<^verbatim>\<open>updateDocIdByDocName(hash, oldId, newId)\<close>, which
  for a known hash answers its id as the old one and issues a fresh id above every id
  issued before.
\<close>

record IdManager =
  docNameToId :: "(nat \<times> docid_t) list"
  lastDocId :: docid_t

definition resolve :: "IdManager \<Rightarrow> nat \<Rightarrow> docid_t option" where
  "resolve idm h = map_of (docNameToId idm) h"

definition assign_new :: "IdManager \<Rightarrow> nat \<Rightarrow> bool \<times> docid_t \<times> IdManager" where
  "assign_new idm h =
     (case resolve idm h of
        Some d \<Rightarrow> (True, d, idm)
      | None \<Rightarrow>
          (False, Suc (lastDocId idm),
           \<lparr>docNameToId = (h, Suc (lastDocId idm)) # docNameToId idm,
            lastDocId = Suc (lastDocId idm)\<rparr>))"

definition update_existing :: "IdManager \<Rightarrow> nat \<Rightarrow> (docid_t \<times> docid_t \<times> IdManager) option" where
  "update_existing idm h =
     (case resolve idm h of
        None \<Rightarrow> None
      | Some old \<Rightarrow>
          Some (old, Suc (lastDocId idm),
                \<lparr>docNameToId = (h, Suc (lastDocId idm)) # docNameToId idm,
                 lastDocId = Suc (lastDocId idm)\<rparr>))"

text \<open>
  The document manager and the index manager are collaborators with a state of their
  own: a record of operations over an abstract state says what each call answers and
  how it changes the state. The hooker, when there is one, may veto an operation.
\<close>

record 'dm DocumentManager_ops =
  getPropertyValue :: "'dm \<Rightarrow> docid_t \<Rightarrow> string \<Rightarrow> PropertyValue option"
  getDocument :: "'dm \<Rightarrow> docid_t \<Rightarrow> Document option"
  isDeleted :: "'dm \<Rightarrow> docid_t \<Rightarrow> bool"
  getMaxDocId :: "'dm \<Rightarrow> docid_t"
  insertDocument :: "'dm \<Rightarrow> Document \<Rightarrow> bool \<times> 'dm"
  removeDocument :: "'dm \<Rightarrow> docid_t \<Rightarrow> bool \<times> 'dm"
  updatePartialDocument :: "'dm \<Rightarrow> Document \<Rightarrow> bool \<times> 'dm"

record 'im IndexManager_ops =
  index_insertDocument :: "'im \<Rightarrow> IndexerDocument \<Rightarrow> 'im"
  index_updateDocument :: "'im \<Rightarrow> IndexerDocument \<Rightarrow> 'im"
  index_updateRtypeDocument :: "'im \<Rightarrow> IndexerDocument \<Rightarrow> IndexerDocument \<Rightarrow> 'im"
  index_removeDocument :: "'im \<Rightarrow> docid_t \<Rightarrow> 'im"

record hooker_ops =
  HookInsert :: "Document \<Rightarrow> IndexerDocument \<Rightarrow> int \<Rightarrow> bool"
  HookUpdate :: "Document \<Rightarrow> IndexerDocument \<Rightarrow> int \<Rightarrow> bool \<Rightarrow> bool"
  HookDelete :: "docid_t \<Rightarrow> int \<Rightarrow> bool"

record ('dm, 'im) worker_env =
  config :: index_config
  dm_ops :: "'dm DocumentManager_ops"
  im_ops :: "'im IndexManager_ops"
  hooker :: "hooker_ops option"

text \<open>The state the worker changes while it processes bundles.\<close>

record ('dm, 'im) worker_state =
  idManager :: IdManager
  documentManager :: 'dm
  indexManager :: 'im
  numDeletedDocs :: nat
  numUpdatedDocs :: nat
  productSourceCount :: "string \<Rightarrow> nat"

text \<open>\<^verbatim>\<open>getPropertyValue_\<close>: the string of a value, \<open>None\<close> on \<^verbatim>\<open>bad_get\<close>.\<close>

definition get_UString :: "PropertyValue \<Rightarrow> string option" where
  "get_UString v = (case v of PV_UString s \<Rightarrow> Some s | _ \<Rightarrow> None)"

text \<open>
  \<^verbatim>\<open>prepareIndexDocument_\<close>, as far as the two ids go: the loop over the
  properties of the document passes over those that the schema does not have, reads
  the value of every other one through \<^verbatim>\<open>*(get<UString>(&(p->second)))\<close> (a
  null pointer when the value is not a string: \<open>None\<close>), and at a DOCID property
  calls \<^verbatim>\<open>setId(oldId)\<close> and \<^verbatim>\<open>setDocId(docId)\<close> with the id of the
  document. The fields that the language analyzer fills in are left out.
\<close>

definition prepareIndexDocument ::
  "index_config \<Rightarrow> docid_t \<Rightarrow> Document \<Rightarrow> IndexerDocument \<Rightarrow> IndexerDocument option" where
  "prepareIndexDocument cfg oldId document indexDocument =
     (if list_ex (\<lambda>p. schema_find cfg (fst p) \<noteq> None \<and> get_UString (snd p) = None)
           (doc_properties document)
      then None
      else if list_ex (\<lambda>p. schema_find cfg (fst p) \<noteq> None \<and> iequals (fst p) DOCID)
                (doc_properties document)
      then Some \<lparr>idx_id = oldId, idx_docId = doc_id document\<rparr>
      else Some indexDocument)"

text \<open>A computation that an exception may leave.\<close>

datatype 'a thrown = Exception_thrown | Completed 'a

text \<open>
  How a function of the index worker ends: with its value, by
  \<^verbatim>\<open>thread_interrupted\<close> at an \<^verbatim>\<open>interruption_point()\<close>, or by an
  exception of a collaborator.
\<close>

datatype index_exit = Index_returned bool | Index_interrupted | Index_threw

text \<open>
  \<^verbatim>\<open>if (hooker_) { if (!hooker_->Hook...(...)) return false; }\<close>: a hooker that
  is there and answers \<^verbatim>\<open>false\<close> vetoes the operation.
\<close>

definition hook_vetoes :: "hooker_ops option \<Rightarrow> (hooker_ops \<Rightarrow> bool) \<Rightarrow> bool" where
  "hook_vetoes h call = (case h of None \<Rightarrow> False | Some ops \<Rightarrow> \<not> call ops)"

section \<open>Index worker: delete bundles\<close>

text \<open>
  \<^verbatim>\<open>deleteDoc_\<close>: the hook may veto; the index entry is removed and the counter
  raised only when the document manager removed the document.
\<close>

definition deleteDoc ::
  "('dm, 'im) worker_env \<Rightarrow> docid_t \<Rightarrow> int \<Rightarrow> ('dm, 'im) worker_state
     \<Rightarrow> bool \<times> ('dm, 'im) worker_state" where
  "deleteDoc env docid timestamp s =
     (if hook_vetoes (hooker env) (\<lambda>h. HookDelete h docid timestamp)
      then (False, s)
      else
        (case removeDocument (dm_ops env) (documentManager s) docid of
           (True, dm') \<Rightarrow>
             (True,
              s\<lparr>documentManager := dm',
                indexManager := index_removeDocument (im_ops env) (indexManager s) docid,
                numDeletedDocs := Suc (numDeletedDocs s)\<rparr>)
         | (False, dm') \<Rightarrow> (False, s\<lparr>documentManager := dm'\<rparr>)))"

text \<open>
  The first loop of \<^verbatim>\<open>deleteSCD_\<close>: the document ids of the DOCIDs that
  resolve, in the order of the file; a DOCID that does not resolve is passed over.
\<close>

fun resolve_docIds :: "index_config \<Rightarrow> IdManager \<Rightarrow> string list \<Rightarrow> docid_t list thrown" where
  "resolve_docIds cfg idm [] = Completed []"
| "resolve_docIds cfg idm (docid_str # rawDocIDList) =
     (case md5ToUint128 cfg docid_str of
        None \<Rightarrow> Exception_thrown
      | Some h \<Rightarrow>
          (case resolve_docIds cfg idm rawDocIDList of
             Exception_thrown \<Rightarrow> Exception_thrown
           | Completed docIdList \<Rightarrow>
               Completed (case resolve idm h of
                            Some docId \<Rightarrow> docId # docIdList
                          | None \<Rightarrow> docIdList)))"

text \<open>The list after \<^verbatim>\<open>std::sort(docIdList.begin(), docIdList.end())\<close>.\<close>

definition deleteSCD_docIdList ::
  "index_config \<Rightarrow> IdManager \<Rightarrow> string list \<Rightarrow> docid_t list thrown" where
  "deleteSCD_docIdList cfg idm rawDocIDList =
     (case resolve_docIds cfg idm rawDocIDList of
        Exception_thrown \<Rightarrow> Exception_thrown
      | Completed docIdList \<Rightarrow> Completed (sort docIdList))"

text \<open>
  The product source counter of one document in the second loop: \<open>None\<close> when the
  stored source value is not a string (\<^verbatim>\<open>getPropertyValue_\<close> fails and
  \<^verbatim>\<open>deleteSCD_\<close> returns \<^verbatim>\<open>false\<close>).
\<close>

definition count_source ::
  "('dm, 'im) worker_env \<Rightarrow> docid_t \<Rightarrow> ('dm, 'im) worker_state
     \<Rightarrow> ('dm, 'im) worker_state option" where
  "count_source env docid s =
     (if productSourceField (config env) \<noteq> [] then
        (case getPropertyValue (dm_ops env) (documentManager s) docid
                (productSourceField (config env)) of
           None \<Rightarrow> Some s
         | Some v \<Rightarrow>
             (case get_UString v of
                None \<Rightarrow> None
              | Some source \<Rightarrow>
                  Some (s\<lparr>productSourceCount :=
                            (productSourceCount s)(source := Suc (productSourceCount s source))\<rparr>)))
      else Some s)"

fun deleteSCD_loop ::
  "('dm, 'im) worker_env \<Rightarrow> int \<Rightarrow> docid_t list \<Rightarrow> ('dm, 'im) worker_state
     \<Rightarrow> bool \<times> ('dm, 'im) worker_state" where
  "deleteSCD_loop env timestamp [] s = (True, s)"
| "deleteSCD_loop env timestamp (docid # docIdList) s =
     (case count_source env docid s of
        None \<Rightarrow> (False, s)
      | Some s1 \<Rightarrow> deleteSCD_loop env timestamp docIdList (snd (deleteDoc env docid timestamp s1)))"

text \<open>
  \<^verbatim>\<open>deleteSCD_\<close>. \<open>getDocIdList\<close> is what \<^verbatim>\<open>parser.getDocIdList\<close> yields
  (\<open>None\<close> when it fails); \<open>interrupted\<close> says whether the
  \<^verbatim>\<open>interruption_point()\<close> at the end throws. (The progress figures and the
  cache reset of the search worker are left out.)
\<close>

definition deleteSCD ::
  "('dm, 'im) worker_env \<Rightarrow> string list option \<Rightarrow> int \<Rightarrow> bool \<Rightarrow> ('dm, 'im) worker_state
     \<Rightarrow> index_exit \<times> ('dm, 'im) worker_state" where
  "deleteSCD env getDocIdList timestamp interrupted s =
     (case getDocIdList of
        None \<Rightarrow> (Index_returned False, s)
      | Some rawDocIDList \<Rightarrow>
          (case deleteSCD_docIdList (config env) (idManager s) rawDocIDList of
             Exception_thrown \<Rightarrow> (Index_threw, s)
           | Completed docIdList \<Rightarrow>
               (case deleteSCD_loop env timestamp docIdList s of
                  (False, s') \<Rightarrow> (Index_returned False, s')
                | (True, s') \<Rightarrow>
                    if interrupted then (Index_interrupted, s')
                    else (Index_returned True, s'))))"

text \<open>One pass of the second loop for a document whose source could be counted.\<close>

definition deleteSCD_step ::
  "('dm, 'im) worker_env \<Rightarrow> int \<Rightarrow> ('dm, 'im) worker_state \<Rightarrow> docid_t
     \<Rightarrow> ('dm, 'im) worker_state" where
  "deleteSCD_step env timestamp s docid =
     (case count_source env docid s of
        None \<Rightarrow> s
      | Some s1 \<Rightarrow> snd (deleteDoc env docid timestamp s1))"

text \<open>
  No product source field is configured, or the stored product source, where there is
  one, is always a string.
\<close>

definition source_is_string :: "('dm, 'im) worker_env \<Rightarrow> bool" where
  "source_is_string env =
     (productSourceField (config env) = []
      \<or> (\<forall>dm docid v.
            getPropertyValue (dm_ops env) dm docid (productSourceField (config env)) = Some v
              \<longrightarrow> get_UString v \<noteq> None))"

text \<open>The document ids of the DOCIDs of a list that resolve, in the order of the list.\<close>

definition resolved_docIds :: "index_config \<Rightarrow> IdManager \<Rightarrow> string list \<Rightarrow> docid_t list" where
  "resolved_docIds cfg idm rawDocIDList =
     List.map_filter
       (\<lambda>docid_str. case md5ToUint128 cfg docid_str of
                       None \<Rightarrow> None
                     | Some h \<Rightarrow> resolve idm h)
       rawDocIDList"

section \<open>Index worker: classifying and preparing an update\<close>

text \<open>
  How the property loop of \<^verbatim>\<open>checkRtype_\<close> ends: at \<^verbatim>\<open>doc.end()\<close>, by
  \<^verbatim>\<open>break\<close>, by \<^verbatim>\<open>return false\<close>, or by the exception of
  \<^verbatim>\<open>md5ToUint128\<close>.
\<close>

datatype loop_exit = Loop_end | Loop_break | Loop_return_false | Loop_threw

type_synonym rTypeFieldValue_t = "(string \<times> PropertyDataType \<times> string) list"

fun rtype_set ::
  "string \<Rightarrow> PropertyDataType \<times> string \<Rightarrow> rTypeFieldValue_t \<Rightarrow> rTypeFieldValue_t" where
  "rtype_set n v [] = [(n, v)]"
| "rtype_set n v ((n', v') # m) = (if n' = n then (n, v) # m else (n', v') # rtype_set n v m)"

text \<open>The test on a changed property: indexed, filterable and not analyzed.\<close>

definition rtype_rewritable :: "PropertyConfig \<Rightarrow> bool" where
  "rtype_rewritable iter = (isIndex iter \<and> isFilter iter \<and> \<not> isAnalyzed iter)"

text \<open>
  The value \<^verbatim>\<open>checkRtype_\<close> compares with the stored one: the date string of
  \<^verbatim>\<open>createTimeStampInSeconds\<close> for a DATE property, the raw value otherwise.
\<close>

definition newPropertyValue :: "index_config \<Rightarrow> string \<Rightarrow> string \<Rightarrow> string" where
  "newPropertyValue cfg fieldName propertyValueU =
     (if iequals fieldName DATE then snd (createTimeStampInSeconds cfg propertyValueU)
      else propertyValueU)"

text \<open>
  The loop of \<^verbatim>\<open>checkRtype_\<close>, with the local \<^verbatim>\<open>docId\<close> (initially
  \<open>0\<close>, set at a DOCID property that resolves), the map
  \<^verbatim>\<open>rTypeFieldValue\<close> and the flag \<^verbatim>\<open>isUpdate\<close>.
\<close>

fun checkRtype_loop ::
  "('dm, 'im) worker_env \<Rightarrow> ('dm, 'im) worker_state \<Rightarrow> docid_t \<Rightarrow> SCDDoc
     \<Rightarrow> rTypeFieldValue_t \<Rightarrow> bool \<Rightarrow> loop_exit \<times> rTypeFieldValue_t \<times> bool" where
  "checkRtype_loop env s docId [] rTypeFieldValue isUpdate =
     (Loop_end, rTypeFieldValue, isUpdate)"
| "checkRtype_loop env s docId ((fieldName, propertyValueU) # doc) rTypeFieldValue isUpdate =
     (case schema_find (config env) fieldName of
        None \<Rightarrow> (Loop_break, rTypeFieldValue, isUpdate)
      | Some iter \<Rightarrow>
          if iequals fieldName DOCID then
            (case md5ToUint128 (config env) propertyValueU of
               None \<Rightarrow> (Loop_threw, rTypeFieldValue, isUpdate)
             | Some h \<Rightarrow>
                 (case resolve (idManager s) h of
                    None \<Rightarrow> (Loop_break, rTypeFieldValue, isUpdate)
                  | Some d \<Rightarrow> checkRtype_loop env s d doc rTypeFieldValue isUpdate))
          else
            (case getPropertyValue (dm_ops env) (documentManager s) docId (propertyName iter) of
               None \<Rightarrow> (Loop_break, rTypeFieldValue, isUpdate)
             | Some v \<Rightarrow>
                 (case get_UString v of
                    None \<Rightarrow> (Loop_return_false, rTypeFieldValue, isUpdate)
                  | Some oldValueStr \<Rightarrow>
                      if newPropertyValue (config env) fieldName propertyValueU = oldValueStr
                      then checkRtype_loop env s docId doc rTypeFieldValue isUpdate
                      else if rtype_rewritable iter
                      then checkRtype_loop env s docId doc
                             (rtype_set (propertyName iter)
                                (propertyType iter,
                                 newPropertyValue (config env) fieldName propertyValueU)
                                rTypeFieldValue)
                             True
                      else if \<not> isIndex iter
                      then checkRtype_loop env s docId doc rTypeFieldValue True
                      else (Loop_break, rTypeFieldValue, isUpdate))))"

text \<open>
  \<^verbatim>\<open>checkRtype_\<close>: the result, and the two reference arguments as it leaves them
  (a \<^verbatim>\<open>break\<close> clears the map, the \<^verbatim>\<open>return false\<close> in the loop does not).
\<close>

definition checkRtype ::
  "('dm, 'im) worker_env \<Rightarrow> ('dm, 'im) worker_state \<Rightarrow> SCDDoc \<Rightarrow> rTypeFieldValue_t \<Rightarrow> bool
     \<Rightarrow> (bool \<times> rTypeFieldValue_t \<times> bool) thrown" where
  "checkRtype env s doc rTypeFieldValue isUpdate =
     (case checkRtype_loop env s 0 doc rTypeFieldValue isUpdate of
        (Loop_end, m, u) \<Rightarrow> Completed (True, m, u)
      | (Loop_break, m, u) \<Rightarrow> Completed (False, [], u)
      | (Loop_return_false, m, u) \<Rightarrow> Completed (False, m, u)
      | (Loop_threw, m, u) \<Rightarrow> Exception_thrown)"




text \<open>
  \<^verbatim>\<open>createUpdateDocId_\<close>: \<open>None\<close> is \<^verbatim>\<open>false\<close> (the two ids are then left
  as they were), \<open>Some (oldId, newId, idManager)\<close> is \<^verbatim>\<open>true\<close>.
\<close>

definition createUpdateDocId ::
  "IdManager \<Rightarrow> nat \<Rightarrow> bool \<Rightarrow> (docid_t \<times> docid_t \<times> IdManager) option" where
  "createUpdateDocId idm scdDocId rType =
     (if rType then
        (case resolve idm scdDocId of
           None \<Rightarrow> None
         | Some oldId \<Rightarrow> Some (oldId, oldId, idm))
      else update_existing idm scdDocId)"

text \<open>
  \<^verbatim>\<open>createInsertDocId_\<close>: \<open>Inl\<close> is \<^verbatim>\<open>false\<close>, with the id manager as the
  calls made so far left it; \<open>Inr (newId, idManager)\<close> is \<^verbatim>\<open>true\<close>.
\<close>

definition createInsertDocId ::
  "('dm, 'im) worker_env \<Rightarrow> 'dm \<Rightarrow> IdManager \<Rightarrow> nat \<Rightarrow> IdManager + docid_t \<times> IdManager" where
  "createInsertDocId env dm idm scdDocId =
     (case assign_new idm scdDocId of
        (True, docId, idm1) \<Rightarrow>
          if isDeleted (dm_ops env) dm docId then
            (case update_existing idm1 scdDocId of
               None \<Rightarrow> Inl idm1
             | Some (oldId, docId', idm2) \<Rightarrow>
                 if docId' \<le> getMaxDocId (dm_ops env) dm then Inl idm2
                 else Inr (docId', idm2))
          else Inl idm1
      | (False, docId, idm1) \<Rightarrow>
          if docId \<le> getMaxDocId (dm_ops env) dm then Inl idm1
          else Inr (docId, idm1))"

text \<open>
  Modelled from the spec: \<^verbatim>\<open>Document::copyPropertiesFromDocument\<close> is not
  among the sources; the new properties are laid over the stored document's.
\<close>

definition copyPropertiesFromDocument :: "Document \<Rightarrow> Document \<Rightarrow> Document" where
  "copyPropertiesFromDocument oldDoc doc =
     oldDoc\<lparr>doc_properties :=
       foldl (\<lambda>ps (n, v). property_set n v ps) (doc_properties oldDoc) (doc_properties doc)\<rparr>"

definition completePartialDocument ::
  "('dm, 'im) worker_env \<Rightarrow> 'dm \<Rightarrow> docid_t \<Rightarrow> Document \<Rightarrow> Document option" where
  "completePartialDocument env dm oldId doc =
     (case getDocument (dm_ops env) dm oldId of
        None \<Rightarrow> None
      | Some oldDoc \<Rightarrow> Some ((copyPropertiesFromDocument oldDoc doc)\<lparr>doc_id := doc_id doc\<rparr>))"

text \<open>The variables of \<^verbatim>\<open>prepareDocument_\<close> that its property loop changes.\<close>

record prepare_vars =
  pv_document :: Document
  pv_oldId :: docid_t
  pv_docId :: docid_t
  pv_rType :: bool
  pv_rTypeFieldValue :: rTypeFieldValue_t
  pv_source :: string
  pv_timestamp :: int
  pv_insert :: bool
  pv_dateExistInSCD :: bool
  pv_idManager :: IdManager

text \<open>
  How \<^verbatim>\<open>prepareDocument_\<close> and the parts of its loop end: with
  \<^verbatim>\<open>false\<close> (and the id manager as it then is), with \<^verbatim>\<open>true\<close> (and the
  variables as they then are), or by the exception of \<^verbatim>\<open>md5ToUint128\<close>.
\<close>

datatype prepare_result =
  Prepare_threw | Prepare_false IdManager | Prepare_true prepare_vars

text \<open>
  The end of the DOCID branch: \<^verbatim>\<open>createInsertDocId_\<close> in insert mode, then
  the id and the DOCID property are set on the document.
\<close>

definition prepare_DOCID_insert ::
  "('dm, 'im) worker_env \<Rightarrow> ('dm, 'im) worker_state \<Rightarrow> string \<Rightarrow> string \<Rightarrow> nat
     \<Rightarrow> prepare_vars \<Rightarrow> prepare_result" where
  "prepare_DOCID_insert env s fieldStr propertyValueU scdDocId v =
     (if pv_insert v then
        (case createInsertDocId env (documentManager s) (pv_idManager v) scdDocId of
           Inl idm \<Rightarrow> Prepare_false idm
         | Inr (docId, idm) \<Rightarrow>
             Prepare_true
               (v\<lparr>pv_docId := docId, pv_idManager := idm,
                  pv_document :=
                    set_doc_property fieldStr (PV_UString propertyValueU)
                      ((pv_document v)\<lparr>doc_id := docId\<rparr>)\<rparr>))
      else
        Prepare_true
          (v\<lparr>pv_document :=
               set_doc_property fieldStr (PV_UString propertyValueU)
                 ((pv_document v)\<lparr>doc_id := pv_docId v\<rparr>)\<rparr>))"

text \<open>
  The branch of the loop for a DOCID property of the schema. Outside insert mode the
  record is classified; an R-type record without a change is rejected; otherwise
  \<^verbatim>\<open>createUpdateDocId_\<close> is asked and, if it fails, the record becomes an
  insert.
\<close>

definition prepare_DOCID ::
  "('dm, 'im) worker_env \<Rightarrow> ('dm, 'im) worker_state \<Rightarrow> SCDDoc \<Rightarrow> string \<Rightarrow> string
     \<Rightarrow> prepare_vars \<Rightarrow> prepare_result" where
  "prepare_DOCID env s doc fieldStr propertyValueU v =
     (if \<not> pv_insert v then
        (case checkRtype env (s\<lparr>idManager := pv_idManager v\<rparr>) doc
                (pv_rTypeFieldValue v) False of
           Exception_thrown \<Rightarrow> Prepare_threw
         | Completed (rType, rTypeFieldValue, isUpdate) \<Rightarrow>
             if rType \<and> \<not> isUpdate then Prepare_false (pv_idManager v)
             else
               (case md5ToUint128 (config env) propertyValueU of
                  None \<Rightarrow> Prepare_threw
                | Some scdDocId \<Rightarrow>
                    (case createUpdateDocId (pv_idManager v) scdDocId rType of
                       None \<Rightarrow>
                         prepare_DOCID_insert env s fieldStr propertyValueU scdDocId
                           (v\<lparr>pv_rType := rType, pv_rTypeFieldValue := rTypeFieldValue,
                              pv_insert := True\<rparr>)
                     | Some (oldId, docId, idm) \<Rightarrow>
                         prepare_DOCID_insert env s fieldStr propertyValueU scdDocId
                           (v\<lparr>pv_rType := rType, pv_rTypeFieldValue := rTypeFieldValue,
                              pv_oldId := oldId, pv_docId := docId, pv_idManager := idm\<rparr>))))
      else
        (case md5ToUint128 (config env) propertyValueU of
           None \<Rightarrow> Prepare_threw
         | Some scdDocId \<Rightarrow> prepare_DOCID_insert env s fieldStr propertyValueU scdDocId v))"

text \<open>The other branches: a DATE property, and a property of the schema by its type.\<close>

definition prepare_other ::
  "('dm, 'im) worker_env \<Rightarrow> string \<Rightarrow> string \<Rightarrow> prepare_vars \<Rightarrow> prepare_vars" where
  "prepare_other env fieldStr propertyValueU v =
     (if iequals fieldStr DATE then
        v\<lparr>pv_dateExistInSCD := True,
          pv_timestamp := fst (createTimeStampInSeconds (config env) propertyValueU),
          pv_document :=
            set_doc_property (dateProperty_name (config env)) (PV_UString propertyValueU)
              (pv_document v)\<rparr>
      else
        (case schema_find (config env) fieldStr of
           None \<Rightarrow> v
         | Some iter \<Rightarrow>
             if propertyType iter = STRING_PROPERTY_TYPE then
               (let d1 = set_doc_property fieldStr (PV_UString propertyValueU) (pv_document v) in
                if analyzerId iter \<noteq> [] \<and> (isSnippet iter \<or> isSummary iter) then
                  v\<lparr>pv_document :=
                      set_doc_property (fieldStr @ ''.blocks'')
                        (PV_CharacterOffsets
                           (makeSentenceBlocks (config env) propertyValueU (displayLength iter)
                              (if isSummary iter
                               then (if summaryNum iter \<le> 0 then 1 else summaryNum iter)
                               else 0)))
                        d1\<rparr>
                else v\<lparr>pv_document := d1\<rparr>)
             else if propertyType iter = INT_PROPERTY_TYPE
                     \<or> propertyType iter = FLOAT_PROPERTY_TYPE
                     \<or> propertyType iter = NOMINAL_PROPERTY_TYPE then
               v\<lparr>pv_document :=
                   set_doc_property fieldStr (PV_UString propertyValueU) (pv_document v)\<rparr>
             else v))"

text \<open>
  The property loop of \<^verbatim>\<open>prepareDocument_\<close>. \<open>doc\<close> is the whole record (what
  \<^verbatim>\<open>checkRtype_\<close> walks), the list argument what is left of the loop.
\<close>

fun prepareDocument_loop ::
  "('dm, 'im) worker_env \<Rightarrow> ('dm, 'im) worker_state \<Rightarrow> SCDDoc \<Rightarrow> SCDDoc \<Rightarrow> prepare_vars
     \<Rightarrow> prepare_result" where
  "prepareDocument_loop env s doc [] v = Prepare_true v"
| "prepareDocument_loop env s doc ((fieldStr, propertyValueU) # rest) v =
     (let v1 =
        (if productSourceField (config env) \<noteq> []
            \<and> iequals fieldStr (productSourceField (config env))
         then v\<lparr>pv_source := propertyValueU\<rparr> else v)
      in
        if iequals fieldStr DOCID \<and> schema_find (config env) fieldStr \<noteq> None then
          (case prepare_DOCID env s doc fieldStr propertyValueU v1 of
             Prepare_true v2 \<Rightarrow> prepareDocument_loop env s doc rest v2
           | r \<Rightarrow> r)
        else prepareDocument_loop env s doc rest (prepare_other env fieldStr propertyValueU v1))"

text \<open>
  \<^verbatim>\<open>prepareDocument_\<close>. The arguments \<open>timestamp\<close> and \<open>insert_mode\<close> (the
  parameter \<^verbatim>\<open>insert\<close>) are the values passed in; the caller passes a cleared
  document, \<open>oldId = 0\<close>, \<open>rType = false\<close>, an empty map and an empty source.
\<close>

definition empty_Document :: Document where
  "empty_Document = \<lparr>doc_id = 0, doc_properties = []\<rparr>"

definition initial_prepare_vars :: "IdManager \<Rightarrow> int \<Rightarrow> bool \<Rightarrow> prepare_vars" where
  "initial_prepare_vars idm timestamp insert_mode =
     \<lparr>pv_document = empty_Document, pv_oldId = 0, pv_docId = 0, pv_rType = False,
      pv_rTypeFieldValue = [], pv_source = [], pv_timestamp = timestamp,
      pv_insert = insert_mode, pv_dateExistInSCD = False, pv_idManager = idm\<rparr>"

definition prepareDocument ::
  "('dm, 'im) worker_env \<Rightarrow> ('dm, 'im) worker_state \<Rightarrow> SCDDoc \<Rightarrow> int \<Rightarrow> bool
     \<Rightarrow> prepare_result" where
  "prepareDocument env s doc timestamp insert_mode =
     (if doc = [] then Prepare_false (idManager s)
      else
        (case prepareDocument_loop env s doc doc
                (initial_prepare_vars (idManager s) timestamp insert_mode) of
           Prepare_true v \<Rightarrow>
             (let v1 =
                (if pv_dateExistInSCD v then v\<lparr>pv_timestamp := - 1\<rparr>
                 else v\<lparr>pv_document :=
                          set_doc_property (dateProperty_name (config env))
                            (PV_UString (date_of_timestamp (config env) (pv_timestamp v)))
                            (pv_document v)\<rparr>)
              in
                if \<not> pv_insert v1 \<and> \<not> pv_rType v1 then
                  (case completePartialDocument env (documentManager s) (pv_oldId v1)
                          (pv_document v1) of
                     None \<Rightarrow> Prepare_false (pv_idManager v1)
                   | Some d \<Rightarrow> Prepare_true (v1\<lparr>pv_document := d\<rparr>))
                else Prepare_true v1)
         | r \<Rightarrow> r))"

section \<open>Index worker: writing an insert or an update\<close>

text \<open>
  \<^verbatim>\<open>time_t\<close> is a signed 64-bit number: a product is reduced to that range.
\<close>

definition time_t_wrap :: "int \<Rightarrow> int" where
  "time_t_wrap x = (x + 2 ^ 63) mod 2 ^ 64 - 2 ^ 63"

text \<open>\<^verbatim>\<open>insertDoc_\<close>: the hook sees the time stamp scaled to microseconds.\<close>

definition insertDoc ::
  "('dm, 'im) worker_env \<Rightarrow> Document \<Rightarrow> IndexerDocument \<Rightarrow> int \<Rightarrow> ('dm, 'im) worker_state
     \<Rightarrow> bool \<times> ('dm, 'im) worker_state" where
  "insertDoc env document indexDocument timestamp s =
     (if hook_vetoes (hooker env)
           (\<lambda>h. HookInsert h document indexDocument
                  (if timestamp \<noteq> - 1 then time_t_wrap (timestamp * 1000000) else timestamp))
      then (False, s)
      else
        (case insertDocument (dm_ops env) (documentManager s) document of
           (True, dm') \<Rightarrow>
             (True,
              s\<lparr>documentManager := dm',
                indexManager := index_insertDocument (im_ops env) (indexManager s) indexDocument\<rparr>)
         | (False, dm') \<Rightarrow> (False, s\<lparr>documentManager := dm'\<rparr>)))"

text \<open>
  The property loop of \<^verbatim>\<open>preparePartialDocument_\<close> reads, for every property
  of the new document other than DOCID and DATE that the schema has as indexed,
  filterable and not analyzed, the stored value through
  \<^verbatim>\<open>get<UString>(&propertyValue)\<close> and dereferences the pointer: a stored
  document that lacks the property, or holds another kind of value there, makes it a
  null pointer. \<open>reads_null\<close> says that this happens.
\<close>

definition reads_null :: "index_config \<Rightarrow> Document \<Rightarrow> Document \<Rightarrow> bool" where
  "reads_null cfg document oldDoc =
     list_ex
       (\<lambda>p. \<not> iequals (fst p) DOCID \<and> \<not> iequals (fst p) DATE
            \<and> (case schema_find cfg (fst p) of
                  None \<Rightarrow> False
                | Some iter \<Rightarrow>
                    rtype_rewritable iter
                    \<and> (case map_of (doc_properties oldDoc) (fst p) of
                          Some (PV_UString old) \<Rightarrow> False
                        | _ \<Rightarrow> True)))
       (doc_properties document)"

text \<open>
  \<^verbatim>\<open>updateDoc_\<close>; \<open>None\<close> is the undefined behaviour of the null pointer
  above. With \<open>rType\<close> the stored document is read
  (\<^verbatim>\<open>preparePartialDocument_\<close>), the document is updated in place and the
  changed columns are rewritten in the index. Otherwise the document stored under
  \<^verbatim>\<open>indexDocument.getId()\<close> is removed (the answer of
  \<^verbatim>\<open>removeDocument\<close> is not looked at), the new document is inserted and the
  index updated.
\<close>

definition updateDoc ::
  "('dm, 'im) worker_env \<Rightarrow> Document \<Rightarrow> IndexerDocument \<Rightarrow> int \<Rightarrow> bool
     \<Rightarrow> ('dm, 'im) worker_state \<Rightarrow> (bool \<times> ('dm, 'im) worker_state) option" where
  "updateDoc env document indexDocument timestamp rType s =
     (if hook_vetoes (hooker env) (\<lambda>h. HookUpdate h document indexDocument timestamp rType)
      then Some (False, s)
      else if rType then
        (case getDocument (dm_ops env) (documentManager s) (doc_id document) of
           None \<Rightarrow> Some (False, s)
         | Some oldDoc \<Rightarrow>
             if reads_null (config env) document oldDoc then None
             else
               (case updatePartialDocument (dm_ops env) (documentManager s) document of
                  (False, dm') \<Rightarrow> Some (False, s\<lparr>documentManager := dm'\<rparr>)
                | (True, dm') \<Rightarrow>
                    Some (True,
                      s\<lparr>documentManager := dm',
                        indexManager :=
                          index_updateRtypeDocument (im_ops env) (indexManager s)
                            (old_index_fields (config env) document oldDoc) indexDocument\<rparr>)))
      else
        (let dm1 = snd (removeDocument (dm_ops env) (documentManager s) (idx_id indexDocument))
         in
           case insertDocument (dm_ops env) dm1 document of
             (False, dm2) \<Rightarrow> Some (False, s\<lparr>documentManager := dm2\<rparr>)
           | (True, dm2) \<Rightarrow>
               Some (True,
                 s\<lparr>documentManager := dm2,
                   indexManager :=
                     index_updateDocument (im_ops env) (indexManager s) indexDocument\<rparr>)))"

text \<open>
  How the body of the record loop of \<^verbatim>\<open>insertOrUpdateSCD_\<close> ends for one
  record: the loop goes on with the next record, or the body is left by
  \<^verbatim>\<open>thread_interrupted\<close> at its \<^verbatim>\<open>interruption_point()\<close>, or by the
  exception of \<^verbatim>\<open>md5ToUint128\<close>, or its behaviour is undefined.
\<close>

datatype record_exit = Goes_on | Left_interrupted | Left_by_exception | Undefined_behaviour

text \<open>
  The body of the record loop of \<^verbatim>\<open>insertOrUpdateSCD_\<close> for one record (the
  progress figures and the cache reset of the search worker are left out): a record
  that \<^verbatim>\<open>prepareDocument_\<close> rejects, or whose insert or update fails, is
  passed over by \<^verbatim>\<open>continue\<close>, before the interruption point. \<open>interrupted\<close>
  says whether that point throws.
\<close>

definition insertOrUpdateSCD_doc ::
  "('dm, 'im) worker_env \<Rightarrow> bool \<Rightarrow> int \<Rightarrow> SCDDoc \<Rightarrow> bool \<Rightarrow> ('dm, 'im) worker_state
     \<Rightarrow> record_exit \<times> ('dm, 'im) worker_state" where
  "insertOrUpdateSCD_doc env isInsert timestamp doc interrupted s =
     (case prepareDocument env s doc timestamp isInsert of
        Prepare_threw \<Rightarrow> (Left_by_exception, s)
      | Prepare_false idm \<Rightarrow> (Goes_on, s\<lparr>idManager := idm\<rparr>)
      | Prepare_true v \<Rightarrow>
          (case prepareIndexDocument (config env) (pv_oldId v) (pv_document v)
                  (cleared_IndexerDocument (config env)) of
             None \<Rightarrow> (Undefined_behaviour, s\<lparr>idManager := pv_idManager v\<rparr>)
           | Some indexDocument \<Rightarrow>
               (let s1 = s\<lparr>idManager := pv_idManager v,
                            productSourceCount :=
                              (if pv_source v \<noteq> []
                               then (productSourceCount s)
                                      (pv_source v := Suc (productSourceCount s (pv_source v)))
                               else productSourceCount s)\<rparr>
                in
                  if isInsert \<or> pv_oldId v = 0 then
                    (case insertDoc env (pv_document v) indexDocument (pv_timestamp v) s1 of
                       (False, s2) \<Rightarrow> (Goes_on, s2)
                     | (True, s2) \<Rightarrow> (if interrupted then Left_interrupted else Goes_on, s2))
                  else
                    (case updateDoc env (pv_document v) indexDocument (pv_timestamp v)
                            (pv_rType v) s1 of
                       None \<Rightarrow> (Undefined_behaviour, s1)
                     | Some (False, s2) \<Rightarrow> (Goes_on, s2)
                     | Some (True, s2) \<Rightarrow>
                         (if interrupted then Left_interrupted else Goes_on,
                          s2\<lparr>numUpdatedDocs := Suc (numUpdatedDocs s2)\<rparr>)))))"


section \<open>An example collection\<close>

text \<open>
  A document manager that keeps the stored documents and the ids marked deleted, an
  index manager that keeps the calls it received, and a schema with an analyzed title,
  a filterable price and a filterable category.
\<close>

type_synonym example_dm = "(docid_t \<times> Document) list \<times> docid_t list"

datatype index_call =
    Index_insert docid_t | Index_update docid_t docid_t | Index_updateRtype docid_t
  | Index_remove docid_t

definition example_dm_ops :: "example_dm DocumentManager_ops" where
  "example_dm_ops =
     \<lparr>getPropertyValue = (\<lambda>dm d n.
         case map_of (fst dm) d of None \<Rightarrow> None | Some doc \<Rightarrow> map_of (doc_properties doc) n),
      getDocument = (\<lambda>dm d. map_of (fst dm) d),
      isDeleted = (\<lambda>dm d. d \<in> set (snd dm)),
      getMaxDocId = (\<lambda>dm. foldr max (map fst (fst dm)) 0),
      insertDocument = (\<lambda>dm doc. (True, (fst dm @ [(doc_id doc, doc)], snd dm))),
      removeDocument = (\<lambda>dm d.
         if d \<in> set (map fst (fst dm)) \<and> d \<notin> set (snd dm)
         then (True, (fst dm, snd dm @ [d])) else (False, dm)),
      updatePartialDocument = (\<lambda>dm doc.
         (True,
          (map (\<lambda>e. if fst e = doc_id doc
                     then (fst e, (copyPropertiesFromDocument (snd e) doc)\<lparr>doc_id := fst e\<rparr>)
                     else e) (fst dm),
           snd dm)))\<rparr>"

definition example_im_ops :: "index_call list IndexManager_ops" where
  "example_im_ops =
     \<lparr>index_insertDocument = (\<lambda>im d. im @ [Index_insert (idx_docId d)]),
      index_updateDocument = (\<lambda>im d. im @ [Index_update (idx_id d) (idx_docId d)]),
      index_updateRtypeDocument = (\<lambda>im old d. im @ [Index_updateRtype (idx_docId d)]),
      index_removeDocument = (\<lambda>im d. im @ [Index_remove d])\<rparr>"

definition example_property :: "string \<Rightarrow> PropertyDataType \<Rightarrow> bool \<Rightarrow> bool \<Rightarrow> PropertyConfig" where
  "example_property n t analyzed filterable =
     \<lparr>propertyName = n, propertyType = t, isIndex = True, isAnalyzed = analyzed,
      isFilter = filterable, analyzerId = (if analyzed then ''la_sia'' else []),
      isSnippet = False, isSummary = False, summaryNum = 0, displayLength = 0\<rparr>"

definition example_config :: index_config where
  "example_config =
     \<lparr>schema_find = (\<lambda>n.
         if n = ''DOCID'' then Some (example_property ''DOCID'' STRING_PROPERTY_TYPE False False)
         else if n = ''title'' then Some (example_property ''title'' STRING_PROPERTY_TYPE True False)
         else if n = ''price'' then Some (example_property ''price'' INT_PROPERTY_TYPE False True)
         else if n = ''Category''
           then Some (example_property ''Category'' STRING_PROPERTY_TYPE False True)
         else None),
      productSourceField = [],
      dateProperty_name = ''DATE'',
      md5ToUint128 = (\<lambda>s. Some (foldr (\<lambda>c n. of_char c + 256 * n) s 0)),
      createTimeStampInSeconds = (\<lambda>v. (0, v)),
      date_of_timestamp = (\<lambda>t. ''20110101000000''),
      makeSentenceBlocks = (\<lambda>text maxDisplayLength numOfSummary. []),
      old_index_fields = (\<lambda>document oldDoc. \<lparr>idx_id = 0, idx_docId = doc_id document\<rparr>),
      cleared_IndexerDocument = \<lparr>idx_id = 0, idx_docId = 0\<rparr>\<rparr>"

definition example_env :: "(example_dm, index_call list) worker_env" where
  "example_env =
     \<lparr>config = example_config, dm_ops = example_dm_ops, im_ops = example_im_ops,
      hooker = None\<rparr>"

text \<open>
  The collection holds document \<open>1\<close> with DOCID \<open>A\<close> (hash \<open>65\<close>) and document \<open>2\<close>
  with DOCID \<open>B\<close> (hash \<open>66\<close>).
\<close>

definition example_doc :: "docid_t \<Rightarrow> string \<Rightarrow> Document" where
  "example_doc d docid_str =
     \<lparr>doc_id = d,
      doc_properties =
        [(''DOCID'', PV_UString docid_str), (''title'', PV_UString ''x''),
         (''price'', PV_UString ''10''), (''Category'', PV_UString ''shoes''),
         (''DATE'', PV_UString ''20110101000000'')]\<rparr>"

definition example_state :: "(example_dm, index_call list) worker_state" where
  "example_state =
     \<lparr>idManager = \<lparr>docNameToId = [(66, 2), (65, 1)], lastDocId = 2\<rparr>,
      documentManager = ([(1, example_doc 1 ''A''), (2, example_doc 2 ''B'')], []),
      indexManager = [],
      numDeletedDocs = 0,
      numUpdatedDocs = 0,
      productSourceCount = (\<lambda>source. 0)\<rparr>"

text \<open>The same collection with a hooker that vetoes every operation on document \<open>1\<close>.\<close>

definition example_hooker :: hooker_ops where
  "example_hooker =
     \<lparr>HookInsert = (\<lambda>document indexDocument timestamp. True),
      HookUpdate = (\<lambda>document indexDocument timestamp rType. idx_id indexDocument \<noteq> 1),
      HookDelete = (\<lambda>docid timestamp. docid \<noteq> 1)\<rparr>"

definition example_env_hooked :: "(example_dm, index_call list) worker_env" where
  "example_env_hooked = example_env\<lparr>hooker := Some example_hooker\<rparr>"

chapter \<open>Properties\<close>

section \<open>Properties of the job scheduler\<close>

lemma runAsynchronousTasks_prefix:
  "prefix (fst (runAsynchronousTasks req n ts)) (map fst ts)"
  by (induction req n ts rule: runAsynchronousTasks.induct)
     (auto split: task_outcome.splits prod.splits)

lemma runAsynchronousTasks_all_return:
  "\<forall>t \<in> set ts. snd t = Returns \<Longrightarrow>
   runAsynchronousTasks None n ts = (map fst ts, Waiting_in_pop)"
  by (induction ts arbitrary: n) (auto simp: interruption_requested_def)

lemma runAsynchronousTasks_stops_at_throw:
  "\<forall>t \<in> set pre. snd t = Returns \<Longrightarrow> out \<noteq> Returns \<Longrightarrow>
   runAsynchronousTasks None n (pre @ (t, out) # post) =
     (map fst pre @ [t],
      if out = Throws_exception then Uncaught_exception else Caught_interrupted)"
  by (induction pre arbitrary: n)
     (auto simp: interruption_requested_def split: task_outcome.splits)

text \<open>
  C6 (as the code has it). The tasks that are started are always a prefix of the
  enqueued sequence, so they run one after the other in enqueue order; with no
  interruption request and no throwing task every enqueued task is run and the worker
  then waits for more. A task that throws ends the worker: the tasks before it and the
  task itself were started, no task enqueued after it is, and the thread function is
  left by the exception (or through the handler, for
  \<^verbatim>\<open>thread_interrupted\<close>).
\<close>

theorem C6_scheduler_runs_prefix_and_stops_at_throw:
  "prefix (fst (runAsynchronousTasks req n ts)) (map fst ts)
   \<and> ((\<forall>t \<in> set ts. snd t = Returns) \<longrightarrow>
        runAsynchronousTasks None n ts = (map fst ts, Waiting_in_pop))
   \<and> ((\<forall>t \<in> set pre. snd t = Returns) \<and> out \<noteq> Returns \<longrightarrow>
        runAsynchronousTasks None n (pre @ (t, out) # post) =
          (map fst pre @ [t],
           if out = Throws_exception then Uncaught_exception else Caught_interrupted))"
proof (intro conjI impI)
  show "prefix (fst (runAsynchronousTasks req n ts)) (map fst ts)"
    by (rule runAsynchronousTasks_prefix)
next
  assume "\<forall>t \<in> set ts. snd t = Returns"
  then show "runAsynchronousTasks None n ts = (map fst ts, Waiting_in_pop)"
    by (rule runAsynchronousTasks_all_return)
next
  assume "(\<forall>t \<in> set pre. snd t = Returns) \<and> out \<noteq> Returns"
  then show "runAsynchronousTasks None n (pre @ (t, out) # post) =
    (map fst pre @ [t],
     if out = Throws_exception then Uncaught_exception else Caught_interrupted)"
    using runAsynchronousTasks_stops_at_throw [of pre out n t post] by simp
qed

theorem C6_scheduler_witness:
  "runAsynchronousTasks None 0 [(1::nat, Returns), (2, Returns)] = ([1, 2], Waiting_in_pop)
   \<and> runAsynchronousTasks None 0 ([(1::nat, Returns)] @ (2, Throws_exception) # [(3, Returns)])
       = ([1, 2], Uncaught_exception)"
  using C6_scheduler_runs_prefix_and_stops_at_throw
      [of None 0 "[(1::nat, Returns), (2, Returns)]" "[(1::nat, Returns)]" Throws_exception 2
         "[(3, Returns)]"]
  by simp

text \<open>
  C6 (as the specification states it) fails: a task that throws is the last task the
  worker starts. Here task 2, enqueued after the throwing task 1, is never run.
\<close>

theorem C6_throwing_task_counterexample:
  "runAsynchronousTasks None 0 [(1::nat, Throws_exception), (2, Returns)]
     = ([1], Uncaught_exception)"
  by simp

section \<open>Properties of order saving\<close>

lemma convertOrderItemVec_length:
  "convertOrderItemVec st its = Some ids \<Longrightarrow> length ids = length its"
  by (induction its arbitrary: ids) (auto split: option.splits)

lemma insertPurchaseCounter_eq:
  "length ids = length its \<Longrightarrow>
   insertPurchaseCounter st its ids =
     Some (list_all (counter_ok_of st) its, concat (map (counter_calls_of st) (zip its ids)))"
proof (induction its arbitrary: ids)
  case Nil
  then show ?case by simp
next
  case (Cons it its)
  then obtain i rest where ids: "ids = i # rest" and len: "length rest = length its"
    by (cases ids) auto
  show ?case
    using Cons.IH [OF len] ids
    by (auto simp: counter_ok_of_def counter_calls_of_def)
qed

text \<open>
  C5 (as the code has it). For a non-empty order whose item strings all resolve, the
  order store write \<^verbatim>\<open>addOrder\<close> and the purchase store write
  \<^verbatim>\<open>addPurchaseItem\<close> are always made, in this order. When the purchase store
  write succeeds, the counter is visited for every item with a query (a
  \<^verbatim>\<open>get\<close>, then an \<^verbatim>\<open>update\<close> if the \<^verbatim>\<open>get\<close> succeeded) and
  the result is the conjunction of these outcomes; when it fails, no counter call is
  made and the result is \<^verbatim>\<open>false\<close>. The outcome of \<^verbatim>\<open>addOrder\<close> is
  not part of the result.
\<close>

theorem C5_saveOrder_writes:
  assumes "orderItemVec \<noteq> []"
    and "convertOrderItemVec st orderItemVec = Some itemIdVec"
  shows "saveOrder st userIdStr orderIdStr orderItemVec matrix =
     Some (if addPurchaseItem st userIdStr itemIdVec
           then (list_all (counter_ok_of st) orderItemVec,
                 OrderManager_addOrder itemIdVec
                   # PurchaseManager_addPurchaseItem userIdStr itemIdVec matrix
                   # concat (map (counter_calls_of st) (zip orderItemVec itemIdVec)))
           else (False,
                 [OrderManager_addOrder itemIdVec,
                  PurchaseManager_addPurchaseItem userIdStr itemIdVec matrix]))"
proof -
  have len: "length itemIdVec = length orderItemVec"
    using assms(2) by (rule convertOrderItemVec_length)
  show ?thesis
    using assms by (simp add: saveOrder_def insertPurchaseCounter_eq [OF len])
qed

theorem C5_saveOrder_witness:
  "saveOrder stores_update_fails ''u1'' ''o1'' [shoes_item] purchaseMatrix
   = Some (False,
       [OrderManager_addOrder [7],
        PurchaseManager_addPurchaseItem ''u1'' [7] purchaseMatrix,
        QueryPurchaseCounter_get ''shoes'',
        QueryPurchaseCounter_update ''shoes'' 7])"
  using C5_saveOrder_writes
    [of "[shoes_item]" stores_update_fails "[7]" "''u1''" "''o1''" purchaseMatrix]
  by (simp add: counter_ok_of_def counter_calls_of_def stores_update_fails_def shoes_item_def)

text \<open>
  C5 (as the specification states it) fails: when the purchase store rejects the
  write, the query-purchase counter is not attempted although the item carries a
  query. The calls made are \<^verbatim>\<open>addOrder\<close> and \<^verbatim>\<open>addPurchaseItem\<close> only.
\<close>

theorem C5_purchase_failure_skips_counter_counterexample:
  "saveOrder stores_purchase_fails ''u1'' ''o1'' [shoes_item] purchaseMatrix
   = Some (False,
       [OrderManager_addOrder [7],
        PurchaseManager_addPurchaseItem ''u1'' [7] purchaseMatrix])"
  by (simp add: saveOrder_def stores_purchase_fails_def shoes_item_def)

section \<open>Properties of order bundle ingestion\<close>

lemma length_push_back_at: "length (push_back_at k it m) = length m"
  by (induction m) auto

lemma loadOrderItem_bound:
  "length m \<le> MAX_ORDER_NUM \<Longrightarrow> length (fst (loadOrderItem u ord it m)) \<le> MAX_ORDER_NUM"
  by (auto simp: loadOrderItem_def length_push_back_at MAX_ORDER_NUM_def split: option.splits)

lemma held_orders_Cons:
  "held_orders ((k, v) # m) = map (\<lambda>it. (fst k, snd k, it)) v @ held_orders m"
  by (simp add: held_orders_def written_orders_def saveOrderMap_def)

lemma held_orders_Nil: "held_orders [] = []"
  by (simp add: held_orders_def written_orders_def saveOrderMap_def)

lemma held_push_back_at:
  "map_of m k = Some v \<Longrightarrow>
   mset (held_orders (push_back_at k it m)) = add_mset (fst k, snd k, it) (mset (held_orders m))"
proof (induction m)
  case Nil
  then show ?case by simp
next
  case (Cons e m)
  obtain k' v' where e: "e = (k', v')" by (cases e)
  show ?case
  proof (cases "k' = k")
    case True
    then show ?thesis using e by (simp add: held_orders_Cons)
  next
    case False
    then have "map_of m k = Some v" using Cons.prems e by simp
    from Cons.IH [OF this] show ?thesis using False e by (simp add: held_orders_Cons)
  qed
qed

lemma held_insort:
  "mset (held_orders (insort_key fst (k, [it]) m)) =
   add_mset (fst k, snd k, it) (mset (held_orders m))"
proof (induction m)
  case Nil
  then show ?case by (simp add: held_orders_Cons held_orders_Nil)
next
  case (Cons e m)
  obtain k' v' where e: "e = (k', v')" by (cases e)
  show ?case using Cons.IH e by (simp add: held_orders_Cons)
qed

lemma written_orders_append:
  "written_orders (a @ b) = written_orders a @ written_orders b"
  by (simp add: written_orders_def)

lemma loadOrderItem_conserves:
  assumes l: "loadOrderItem u ord it m = (m', c)"
  shows "mset (written_orders c) + mset (held_orders m')
     = add_mset (u, ord, it) (mset (held_orders m))"
proof (cases "ord = []")
  case True
  then show ?thesis using l by (auto simp: loadOrderItem_def written_orders_def)
next
  case False
  show ?thesis
  proof (cases "map_of m (u, ord)")
    case (Some v)
    then show ?thesis
      using l False held_push_back_at [OF Some, of it]
      by (auto simp: loadOrderItem_def written_orders_def)
  next
    case None
    show ?thesis
    proof (cases "length m \<ge> MAX_ORDER_NUM")
      case True
      then show ?thesis
        using l False None held_insort [of "(u, ord)" it "[]"]
        by (auto simp: loadOrderItem_def held_orders_Nil held_orders_def [symmetric])
    next
      case le: False
      then show ?thesis
        using l False None held_insort [of "(u, ord)" it m]
        by (auto simp: loadOrderItem_def written_orders_def)
    qed
  qed
qed

lemma accepted_orders_Cons:
  "accepted_orders env (doc # docs) =
     (case doc2Order env doc of None \<Rightarrow> accepted_orders env docs
      | Some r \<Rightarrow> r # accepted_orders env docs)"
  by (simp add: accepted_orders_def map_filter_simps split: option.splits)

lemma parseOrderSCD_loop_conserves:
  "parseOrderSCD_loop env None n docs m = (c, r, n') \<Longrightarrow>
   \<exists>m'. r = Some m'
     \<and> mset (written_orders c) + mset (held_orders m')
         = mset (accepted_orders env docs) + mset (held_orders m)
     \<and> (length m \<le> MAX_ORDER_NUM \<longrightarrow> length m' \<le> MAX_ORDER_NUM)"
proof (induction docs arbitrary: n m c r n')
  case Nil
  then show ?case by (auto simp: accepted_orders_def written_orders_def map_filter_simps)
next
  case (Cons doc docs)
  show ?case
  proof (cases "doc2Order env doc")
    case None
    then show ?thesis using Cons by (simp add: accepted_orders_Cons)
  next
    case (Some t)
    obtain u ord it where t: "t = (u, ord, it)" by (cases t)
    obtain m1 c1 where l: "loadOrderItem u ord it m = (m1, c1)" by (cases "loadOrderItem u ord it m")
    obtain c2 r2 n2 where rec: "parseOrderSCD_loop env None (Suc n) docs m1 = (c2, r2, n2)"
      by (cases "parseOrderSCD_loop env None (Suc n) docs m1")
    from Cons.prems Some t l rec have c: "c = c1 @ c2" and r: "r = r2"
      by (simp_all add: interruption_requested_def)
    from Cons.IH [OF rec] obtain m' where m': "r2 = Some m'"
      and cons: "mset (written_orders c2) + mset (held_orders m')
         = mset (accepted_orders env docs) + mset (held_orders m1)"
      and bound: "length m1 \<le> MAX_ORDER_NUM \<longrightarrow> length m' \<le> MAX_ORDER_NUM"
      by blast
    have b1: "length m \<le> MAX_ORDER_NUM \<longrightarrow> length m1 \<le> MAX_ORDER_NUM"
      using loadOrderItem_bound [of m u ord it] l by simp
    have "mset (written_orders c) + mset (held_orders m')
        = mset (written_orders c1) + (mset (written_orders c2) + mset (held_orders m'))"
      by (simp add: c written_orders_append)
    also have "\<dots> = mset (written_orders c1) + mset (held_orders m1) + mset (accepted_orders env docs)"
      by (simp add: cons)
    also have "\<dots> = add_mset (u, ord, it) (mset (held_orders m)) + mset (accepted_orders env docs)"
      by (simp add: loadOrderItem_conserves [OF l])
    also have "\<dots> = mset (accepted_orders env (doc # docs)) + mset (held_orders m)"
      by (simp add: accepted_orders_Cons Some t)
    finally show ?thesis using m' r bound b1 by blast
  qed
qed

lemma parseOrderSCD_writes_all:
  assumes "load env p = Some docs" and "checkSCDType env p = INSERT_SCD"
  shows "\<exists>c n'. parseOrderSCD env None n p = (c, Returned True, n')
           \<and> mset (written_orders c) = mset (accepted_orders env docs)"
proof -
  obtain c r n' where l: "parseOrderSCD_loop env None n docs [] = (c, r, n')"
    by (cases "parseOrderSCD_loop env None n docs []")
  from parseOrderSCD_loop_conserves [OF l] obtain m' where r: "r = Some m'"
    and cons: "mset (written_orders c) + mset (held_orders m')
         = mset (accepted_orders env docs) + mset (held_orders [])" by blast
  have "parseOrderSCD env None n p = (c @ saveOrderMap m', Returned True, n')"
    using assms l r by (simp add: parseOrderSCD_def)
  moreover have "mset (written_orders (c @ saveOrderMap m')) = mset (accepted_orders env docs)"
    using cons by (simp add: written_orders_append held_orders_def [symmetric] held_orders_Nil)
  ultimately show ?thesis by blast
qed

lemma full_OrderMap_length: "length full_OrderMap = 1000" by (simp add: full_OrderMap_def)
lemma full_OrderMap_lookup: "map_of full_OrderMap (''v'', ''o'') = None"
  by (simp add: full_OrderMap_def map_of_eq_None_iff image_iff)

text \<open>
  C7. \<^verbatim>\<open>loadOrderItem_\<close> keeps the map within \<^verbatim>\<open>MAX_ORDER_NUM\<close> entries:
  a new key that meets a full map makes it flush the whole map through
  \<^verbatim>\<open>saveOrderMap_\<close> and restart from the new entry alone; a record with an empty
  order id is written at once as a singleton and leaves the map as it is. Started on
  the empty map, the record loop therefore holds at most \<^verbatim>\<open>MAX_ORDER_NUM\<close>
  entries after any number of records. When \<^verbatim>\<open>parseOrderSCD_\<close> is not
  interrupted, the file loads and is of insert type, it returns \<^verbatim>\<open>true\<close> and
  the (user, order id, item) triples handed to \<^verbatim>\<open>saveOrder_\<close> are exactly the
  accepted records of the file, each once.
\<close>

theorem C7_OrderMap_bounded_and_flushed:
  "(length m \<le> MAX_ORDER_NUM \<longrightarrow>
      length (fst (loadOrderItem u ord it m)) \<le> MAX_ORDER_NUM)
   \<and> (ord \<noteq> [] \<and> map_of m (u, ord) = None \<and> length m \<ge> MAX_ORDER_NUM \<longrightarrow>
      loadOrderItem u ord it m = ([((u, ord), [it])], saveOrderMap m))
   \<and> loadOrderItem u [] it m = (m, [SaveOrder u [] [it] purchaseCoVisitMatrix])
   \<and> (\<forall>c r n'. parseOrderSCD_loop env None n docs [] = (c, r, n') \<longrightarrow>
        (\<exists>m'. r = Some m' \<and> length m' \<le> MAX_ORDER_NUM))
   \<and> (load env p = Some docs \<and> checkSCDType env p = INSERT_SCD \<longrightarrow>
        (\<exists>c n'. parseOrderSCD env None n p = (c, Returned True, n')
           \<and> mset (written_orders c) = mset (accepted_orders env docs)))"
proof (intro conjI impI allI)
  assume "length m \<le> MAX_ORDER_NUM"
  then show "length (fst (loadOrderItem u ord it m)) \<le> MAX_ORDER_NUM"
    by (rule loadOrderItem_bound)
next
  assume "ord \<noteq> [] \<and> map_of m (u, ord) = None \<and> length m \<ge> MAX_ORDER_NUM"
  then show "loadOrderItem u ord it m = ([((u, ord), [it])], saveOrderMap m)"
    by (simp add: loadOrderItem_def)
next
  show "loadOrderItem u [] it m = (m, [SaveOrder u [] [it] purchaseCoVisitMatrix])"
    by (simp add: loadOrderItem_def)
next
  fix c r n'
  assume "parseOrderSCD_loop env None n docs [] = (c, r, n')"
  from parseOrderSCD_loop_conserves [OF this]
  show "\<exists>m'. r = Some m' \<and> length m' \<le> MAX_ORDER_NUM" by auto
next
  assume "load env p = Some docs \<and> checkSCDType env p = INSERT_SCD"
  then show "\<exists>c n'. parseOrderSCD env None n p = (c, Returned True, n')
           \<and> mset (written_orders c) = mset (accepted_orders env docs)"
    using parseOrderSCD_writes_all by blast
qed

lemma example_load:
  "load example_scd_env ''B-00-201101010000-00000-I-C.SCD'' =
     Some [[(''USERID'', ''u1''), (''ITEMID'', ''i7''), (''ORDERID'', ''o1'')],
           [(''USERID'', ''u2''), (''ITEMID'', ''i8'')],
           [(''USERID'', ''u1''), (''ITEMID'', ''i9''), (''ORDERID'', ''o1'')]]"
  by (simp add: example_scd_env_def)

lemma example_type:
  "checkSCDType example_scd_env ''B-00-201101010000-00000-I-C.SCD'' = INSERT_SCD"
  by (simp add: example_scd_env_def)

theorem C7_OrderMap_witness:
  "length (fst (loadOrderItem ''u1'' ''o1'' shoes_item [])) \<le> MAX_ORDER_NUM
   \<and> loadOrderItem ''v'' ''o'' shoes_item full_OrderMap
       = ([((''v'', ''o''), [shoes_item])], saveOrderMap full_OrderMap)
   \<and> length full_OrderMap = MAX_ORDER_NUM
   \<and> (\<exists>c n'. parseOrderSCD example_scd_env None 0 ''B-00-201101010000-00000-I-C.SCD''
                 = (c, Returned True, n')
           \<and> mset (written_orders c) =
               mset (accepted_orders example_scd_env
                 [[(''USERID'', ''u1''), (''ITEMID'', ''i7''), (''ORDERID'', ''o1'')],
                  [(''USERID'', ''u2''), (''ITEMID'', ''i8'')],
                  [(''USERID'', ''u1''), (''ITEMID'', ''i9''), (''ORDERID'', ''o1'')]]))"
  using C7_OrderMap_bounded_and_flushed
      [of "[]" "''u1''" "''o1''" shoes_item example_scd_env 0
          "[[(''USERID'', ''u1''), (''ITEMID'', ''i7''), (''ORDERID'', ''o1'')],
            [(''USERID'', ''u2''), (''ITEMID'', ''i8'')],
            [(''USERID'', ''u1''), (''ITEMID'', ''i9''), (''ORDERID'', ''o1'')]]"
          "''B-00-201101010000-00000-I-C.SCD''"]
    C7_OrderMap_bounded_and_flushed
      [of full_OrderMap "''v''" "''o''" shoes_item example_scd_env 0 "[]" "[]"]
    example_load example_type full_OrderMap_length full_OrderMap_lookup
  by (simp add: MAX_ORDER_NUM_def)

section \<open>Properties of the bulk build over order bundles\<close>






















section \<open>Properties of the cron job\<close>

text \<open>
  C8. A cron tick that finds \<^verbatim>\<open>buildCollectionMutex_\<close> held (as it is for the
  whole of \<^verbatim>\<open>loadUserSCD_\<close> and \<^verbatim>\<open>loadOrderSCD_\<close> inside
  \<^verbatim>\<open>buildCollection\<close>) makes no call on any sub-store or matrix, whatever the
  cron expression, the staleness of the matrix and the frequent item set switch say.
\<close>

theorem C8_cronJob_skips_while_build_holds_mutex:
  "cronJob matches_now True needRebuildPurchaseSimMatrix freqItemSetEnable = []"
  by (simp add: cronJob_def scoped_try_lock_owns_lock_def)

lemma cronJob_runs_when_free:
  "cronJob True False needRebuildPurchaseSimMatrix freqItemSetEnable =
     flush needRebuildPurchaseSimMatrix @ buildFreqItemSet freqItemSetEnable"
  by (simp add: cronJob_def scoped_try_lock_owns_lock_def)

section \<open>Properties of the data directory backups\<close>

lemma backupDataFiles_valid_copy:
  "nextDirectory rot = Some nxt \<Longrightarrow> valid nxt \<Longrightarrow>
   parentName nxt = name (currentDirectory rot) \<Longrightarrow>
   backupDataFiles copyFrom rot = (True, rot, [])"
  by (simp add: backupDataFiles_def)

lemma backupDataFiles_twice:
  assumes c: "copyFrom_marks_copy copyFrom"
    and b: "backupDataFiles copyFrom rot = (True, rot', calls)"
  shows "backupDataFiles copyFrom rot' = (True, rot', [])"
proof (cases "nextDirectory rot")
  case None
  then show ?thesis using b by (simp add: backupDataFiles_def)
next
  case (Some nxt)
  show ?thesis
  proof (cases "name (currentDirectory rot) \<noteq> name nxt
      \<and> \<not> (valid nxt \<and> parentName nxt = name (currentDirectory rot))")
    case False
    then show ?thesis using b Some by (auto simp: backupDataFiles_def)
  next
    case True
    obtain raised next' where cf: "copyFrom nxt (currentDirectory rot) = (raised, next')"
      by (cases "copyFrom nxt (currentDirectory rot)")
    from b Some True cf have r: "\<not> raised" and rot': "rot' = rot\<lparr>nextDirectory := Some next'\<rparr>"
      by (auto simp: backupDataFiles_def)
    from c r cf have "valid next' \<and> parentName next' = name (currentDirectory rot)
        \<and> name next' = name nxt"
      unfolding copyFrom_marks_copy_def by (metis fst_conv snd_conv)
    then show ?thesis using rot' True by (simp add: backupDataFiles_def)
  qed
qed

lemma backup_always_copies:
  "nextDirectory rot = Some nxt \<Longrightarrow> name (currentDirectory rot) \<noteq> name nxt \<Longrightarrow>
   snd (snd (backup copyFrom rot)) = [CopyFrom (name nxt) (name (currentDirectory rot))]"
  by (simp add: backup_def Let_def split: prod.splits)

lemma copyFrom_example_marks_copy: "copyFrom_marks_copy copyFrom_example"
  by (simp add: copyFrom_marks_copy_def copyFrom_example_def)

lemma backupDataFiles_fresh:
  "backupDataFiles copyFrom_example rotator_fresh =
     (True, rotator_copied, [CopyFrom ''data-b'' ''data-a''])"
  by (simp add: backupDataFiles_def copyFrom_example_def rotator_fresh_def rotator_copied_def)

text \<open>
  C4. The property holds for \<^verbatim>\<open>backupDataFiles\<close> (the three lemmas above: no copy
  when the next directory is already a valid copy of the current one, hence none in a
  backup that follows a successful one). \<^verbatim>\<open>IndexWorker::backup_\<close> breaks it:
  the test for a valid copy, which its own comment still lists, is commented out. At
  the input below the next directory \<open>data-b\<close> is valid and has the current
  directory \<open>data-a\<close> as its parent; \<^verbatim>\<open>backupDataFiles\<close> makes no
  \<^verbatim>\<open>copyFrom\<close> call, \<^verbatim>\<open>backup_\<close> copies again, and does so on every
  further call.
\<close>

theorem C4_backup_copies_again_at_valid_copy:
  "backupDataFiles copyFrom_example rotator_copied = (True, rotator_copied, [])
   \<and> backup copyFrom_example rotator_copied =
       (True, rotator_copied, [CopyFrom ''data-b'' ''data-a''])
   \<and> backup copyFrom_example (fst (snd (backup copyFrom_example rotator_copied))) =
       (True, rotator_copied, [CopyFrom ''data-b'' ''data-a''])"
  by (simp add: backup_def backupDataFiles_def copyFrom_example_def rotator_copied_def)

section \<open>Properties of delete bundles\<close>

lemma resolve_docIds_Completed:
  "resolve_docIds cfg idm raw = Completed l \<Longrightarrow> l = resolved_docIds cfg idm raw"
proof (induction raw arbitrary: l)
  case Nil
  then show ?case by (simp add: resolved_docIds_def map_filter_simps)
next
  case (Cons x raw)
  then show ?case
    by (auto simp: resolved_docIds_def map_filter_simps split: option.splits thrown.splits)
qed

lemma resolve_docIds_total:
  "\<forall>x \<in> set raw. md5ToUint128 cfg x \<noteq> None \<Longrightarrow>
   resolve_docIds cfg idm raw = Completed (resolved_docIds cfg idm raw)"
proof (induction raw)
  case Nil
  then show ?case by (simp add: resolved_docIds_def map_filter_simps)
next
  case (Cons x raw)
  then show ?case
    by (auto simp: resolved_docIds_def map_filter_simps split: option.splits)
qed

lemma deleteSCD_docIdList_Completed:
  "deleteSCD_docIdList cfg idm raw = Completed l \<Longrightarrow>
   l = sort (resolved_docIds cfg idm raw)"
  by (auto simp: deleteSCD_docIdList_def split: thrown.splits dest: resolve_docIds_Completed)

lemma deleteSCD_docIdList_total:
  "\<forall>x \<in> set raw. md5ToUint128 cfg x \<noteq> None \<Longrightarrow>
   deleteSCD_docIdList cfg idm raw = Completed (sort (resolved_docIds cfg idm raw))"
  by (simp add: deleteSCD_docIdList_def resolve_docIds_total)

lemma mset_map_filter:
  "mset (List.map_filter f xs) = image_mset (the \<circ> f) (filter_mset (\<lambda>x. f x \<noteq> None) (mset xs))"
  by (simp add: List.map_filter_def)

lemma resolved_docIds_mset:
  "mset raw = mset raw' \<Longrightarrow>
   mset (resolved_docIds cfg idm raw) = mset (resolved_docIds cfg idm raw')"
  unfolding resolved_docIds_def mset_map_filter by (rule arg_cong [where f = "image_mset _"]) simp

lemma sorted_docIds_order_independent:
  assumes "mset raw = mset raw'"
  shows "sort (resolved_docIds cfg idm raw) = sort (resolved_docIds cfg idm raw')"
proof (rule properties_for_sort)
  show "mset (sort (resolved_docIds cfg idm raw')) = mset (resolved_docIds cfg idm raw)"
    using resolved_docIds_mset [OF assms, of cfg idm] by simp
  show "sorted (sort (resolved_docIds cfg idm raw'))" by simp
qed

lemma count_source_Some:
  assumes "source_is_string env"
  shows "\<exists>s1. count_source env d s = Some s1"
proof (cases "productSourceField (config env) = []")
  case True
  then show ?thesis by (simp add: count_source_def)
next
  case False
  then have str: "\<And>dm docid v.
      getPropertyValue (dm_ops env) dm docid (productSourceField (config env)) = Some v
        \<Longrightarrow> get_UString v \<noteq> None"
    using assms unfolding source_is_string_def by blast
  show ?thesis
  proof (cases "getPropertyValue (dm_ops env) (documentManager s) d
      (productSourceField (config env))")
    case None
    then show ?thesis using False by (simp add: count_source_def)
  next
    case (Some v)
    from str [OF Some] obtain src where "get_UString v = Some src" by blast
    then show ?thesis using False Some by (simp add: count_source_def)
  qed
qed

lemma deleteSCD_loop_foldl:
  "source_is_string env \<Longrightarrow>
   deleteSCD_loop env ts l s = (True, foldl (deleteSCD_step env ts) s l)"
proof (induction l arbitrary: s)
  case Nil
  then show ?case by simp
next
  case (Cons d l)
  obtain s1 where c: "count_source env d s = Some s1"
    using count_source_Some [OF Cons.prems] by blast
  show ?case using c Cons.IH [OF Cons.prems] by (simp add: deleteSCD_step_def)
qed

lemma deleteSCD_returns_true:
  assumes "\<forall>x \<in> set raw. md5ToUint128 (config env) x \<noteq> None" and "source_is_string env"
  shows "deleteSCD env (Some raw) ts False s =
     (Index_returned True,
      foldl (deleteSCD_step env ts) s (sort (resolved_docIds (config env) (idManager s) raw)))"
  using assms by (simp add: deleteSCD_def deleteSCD_docIdList_total deleteSCD_loop_foldl)

lemma deleteDoc_cases:
  "(hook_vetoes (hooker env) (\<lambda>h. HookDelete h d ts) \<longrightarrow> deleteDoc env d ts s = (False, s))
   \<and> (\<not> hook_vetoes (hooker env) (\<lambda>h. HookDelete h d ts)
        \<and> removeDocument (dm_ops env) (documentManager s) d = (True, dm') \<longrightarrow>
      deleteDoc env d ts s =
        (True, s\<lparr>documentManager := dm',
                 indexManager := index_removeDocument (im_ops env) (indexManager s) d,
                 numDeletedDocs := Suc (numDeletedDocs s)\<rparr>))
   \<and> (\<not> hook_vetoes (hooker env) (\<lambda>h. HookDelete h d ts)
        \<and> removeDocument (dm_ops env) (documentManager s) d = (False, dm') \<longrightarrow>
      deleteDoc env d ts s = (False, s\<lparr>documentManager := dm'\<rparr>))"
  by (simp add: deleteDoc_def)

text \<open>
  C3 (as the code has it). The list that the second loop of \<^verbatim>\<open>deleteSCD_\<close>
  walks is the list of document ids of the DOCIDs that resolve, sorted in ascending
  order; it does not depend on the order of the DOCIDs in the file, and a DOCID that
  does not resolve leaves no trace in it. When no stored product source fails to be
  read as a string (and the hash function and the final interruption point do not
  throw), \<^verbatim>\<open>deleteSCD_\<close> returns \<^verbatim>\<open>true\<close> and has run one pass of the
  loop for every id of that list, front to back. A pass calls \<^verbatim>\<open>deleteDoc_\<close>:
  the document is removed from the document store and then from the index, and the
  counter of deleted documents is raised, unless the delete hook vetoes (nothing
  changes) or the document store refuses the removal (the index is left alone); in
  both cases the loop goes on with the next id.
\<close>

theorem C3_deleteSCD_ascending_unless_vetoed:
  "(\<forall>l. deleteSCD_docIdList (config env) (idManager s) raw = Completed l \<longrightarrow>
       l = sort (resolved_docIds (config env) (idManager s) raw) \<and> sorted l)
   \<and> (mset raw = mset raw' \<longrightarrow>
       sort (resolved_docIds (config env) (idManager s) raw)
         = sort (resolved_docIds (config env) (idManager s) raw'))
   \<and> ((\<forall>x \<in> set raw. md5ToUint128 (config env) x \<noteq> None) \<and> source_is_string env \<longrightarrow>
       deleteSCD env (Some raw) ts False s =
         (Index_returned True,
          foldl (deleteSCD_step env ts) s
            (sort (resolved_docIds (config env) (idManager s) raw))))
   \<and> (productSourceField (config env) = [] \<longrightarrow>
       deleteSCD_step env ts s d = snd (deleteDoc env d ts s))
   \<and> (hook_vetoes (hooker env) (\<lambda>h. HookDelete h d ts) \<longrightarrow> deleteDoc env d ts s = (False, s))
   \<and> (\<not> hook_vetoes (hooker env) (\<lambda>h. HookDelete h d ts)
        \<and> removeDocument (dm_ops env) (documentManager s) d = (True, dm') \<longrightarrow>
      deleteDoc env d ts s =
        (True, s\<lparr>documentManager := dm',
                 indexManager := index_removeDocument (im_ops env) (indexManager s) d,
                 numDeletedDocs := Suc (numDeletedDocs s)\<rparr>))
   \<and> (\<not> hook_vetoes (hooker env) (\<lambda>h. HookDelete h d ts)
        \<and> removeDocument (dm_ops env) (documentManager s) d = (False, dm') \<longrightarrow>
      deleteDoc env d ts s = (False, s\<lparr>documentManager := dm'\<rparr>))"
proof (intro conjI allI impI)
  fix l
  assume a: "deleteSCD_docIdList (config env) (idManager s) raw = Completed l"
  show "l = sort (resolved_docIds (config env) (idManager s) raw)"
    using a by (rule deleteSCD_docIdList_Completed)
  then show "sorted l" by simp
next
  assume "mset raw = mset raw'"
  then show "sort (resolved_docIds (config env) (idManager s) raw)
         = sort (resolved_docIds (config env) (idManager s) raw')"
    by (rule sorted_docIds_order_independent)
next
  assume a: "(\<forall>x \<in> set raw. md5ToUint128 (config env) x \<noteq> None) \<and> source_is_string env"
  show "deleteSCD env (Some raw) ts False s =
         (Index_returned True,
          foldl (deleteSCD_step env ts) s
            (sort (resolved_docIds (config env) (idManager s) raw)))"
    by (rule deleteSCD_returns_true) (use a in simp_all)
next
  assume "productSourceField (config env) = []"
  then show "deleteSCD_step env ts s d = snd (deleteDoc env d ts s)"
    by (simp add: deleteSCD_step_def count_source_def)
next
  assume "hook_vetoes (hooker env) (\<lambda>h. HookDelete h d ts)"
  then show "deleteDoc env d ts s = (False, s)" by (simp add: deleteDoc_def)
next
  assume "\<not> hook_vetoes (hooker env) (\<lambda>h. HookDelete h d ts)
        \<and> removeDocument (dm_ops env) (documentManager s) d = (True, dm')"
  then show "deleteDoc env d ts s =
        (True, s\<lparr>documentManager := dm',
                 indexManager := index_removeDocument (im_ops env) (indexManager s) d,
                 numDeletedDocs := Suc (numDeletedDocs s)\<rparr>)"
    by (simp add: deleteDoc_def)
next
  assume "\<not> hook_vetoes (hooker env) (\<lambda>h. HookDelete h d ts)
        \<and> removeDocument (dm_ops env) (documentManager s) d = (False, dm')"
  then show "deleteDoc env d ts s = (False, s\<lparr>documentManager := dm'\<rparr>)"
    by (simp add: deleteDoc_def)
qed

lemma example_md5_total: "\<forall>x \<in> set raw. md5ToUint128 (config example_env) x \<noteq> None"
  by (simp add: example_env_def example_config_def)

lemma example_source_is_string: "source_is_string example_env"
  by (simp add: source_is_string_def example_env_def example_config_def)

lemma example_resolved:
  "resolved_docIds (config example_env) (idManager example_state) [''B'', ''Z'', ''A''] = [2, 1]"
  by (simp add: resolved_docIds_def map_filter_simps example_env_def example_config_def
      example_state_def resolve_def)

lemma example_docIdList:
  "deleteSCD_docIdList (config example_env) (idManager example_state) [''B'', ''Z'', ''A'']
     = Completed [1, 2]"
  by (simp add: deleteSCD_docIdList_total [OF example_md5_total] example_resolved)

lemma example_no_source: "productSourceField (config example_env) = []"
  by (simp add: example_env_def example_config_def)

lemma example_hooked_vetoes:
  "hook_vetoes (hooker example_env_hooked) (\<lambda>h. HookDelete h 1 5)"
  by (simp add: hook_vetoes_def example_env_hooked_def example_hooker_def)

lemma example_no_veto:
  "\<not> hook_vetoes (hooker example_env) (\<lambda>h. HookDelete h d 5)"
  by (simp add: hook_vetoes_def example_env_def)

lemma example_remove_1:
  "removeDocument (dm_ops example_env) (documentManager example_state) 1
     = (True, (fst (documentManager example_state), [1]))"
  by (simp add: example_env_def example_dm_ops_def example_state_def)

lemma example_remove_9:
  "removeDocument (dm_ops example_env) (documentManager example_state) 9
     = (False, documentManager example_state)"
  by (simp add: example_env_def example_dm_ops_def example_state_def)

theorem C3_deleteSCD_witness:
  "deleteSCD_docIdList (config example_env) (idManager example_state) [''B'', ''Z'', ''A'']
     = Completed [1, 2]
   \<and> deleteSCD example_env (Some [''B'', ''Z'', ''A'']) 5 False example_state =
       (Index_returned True, foldl (deleteSCD_step example_env 5) example_state [1, 2])
   \<and> deleteSCD_step example_env 5 example_state 1
       = snd (deleteDoc example_env 1 5 example_state)
   \<and> deleteDoc example_env_hooked 1 5 example_state = (False, example_state)
   \<and> deleteDoc example_env 1 5 example_state =
       (True, example_state\<lparr>documentManager := (fst (documentManager example_state), [1]),
                indexManager :=
                  index_removeDocument (im_ops example_env) (indexManager example_state) 1,
                numDeletedDocs := Suc (numDeletedDocs example_state)\<rparr>)
   \<and> deleteDoc example_env 9 5 example_state =
       (False, example_state\<lparr>documentManager := documentManager example_state\<rparr>)"
  using C3_deleteSCD_ascending_unless_vetoed
      [of example_env example_state "[''B'', ''Z'', ''A'']" "[''B'', ''Z'', ''A'']" 5 1
          "(fst (documentManager example_state), [1])"]
    C3_deleteSCD_ascending_unless_vetoed
      [of example_env_hooked example_state "[]" "[]" 5 1 "documentManager example_state"]
    C3_deleteSCD_ascending_unless_vetoed
      [of example_env example_state "[]" "[]" 5 9 "documentManager example_state"]
    example_docIdList example_md5_total [of "[''B'', ''Z'', ''A'']"]
    example_source_is_string example_resolved
    example_no_source example_hooked_vetoes example_no_veto [of 1] example_no_veto [of 9]
    example_remove_1 example_remove_9
  by simp

lemma example_hooked_deleteSCD:
  "deleteSCD example_env_hooked (Some [''B'', ''Z'', ''A'']) 5 False example_state =
     (Index_returned True,
      example_state\<lparr>documentManager := (fst (documentManager example_state), [2]),
        indexManager := [Index_remove 2], numDeletedDocs := 1\<rparr>)"
  by (simp add: deleteSCD_def deleteSCD_docIdList_def resolve_def deleteDoc_def count_source_def
      hook_vetoes_def example_env_hooked_def example_env_def example_config_def
      example_hooker_def example_dm_ops_def example_im_ops_def example_state_def)

text \<open>
  C3 (as the specification states it) fails: the DOCID \<open>A\<close> resolves to document
  \<open>1\<close>, the hook vetoes its deletion, and the pass returns \<^verbatim>\<open>true\<close> with
  document \<open>1\<close> neither marked deleted in the document store nor removed from the
  index; only document \<open>2\<close> is deleted.
\<close>

theorem C3_vetoed_delete_counterexample:
  "md5ToUint128 (config example_env_hooked) ''A'' = Some 65
   \<and> resolve (idManager example_state) 65 = Some 1
   \<and> fst (deleteSCD example_env_hooked (Some [''B'', ''Z'', ''A'']) 5 False example_state)
       = Index_returned True
   \<and> snd (documentManager
           (snd (deleteSCD example_env_hooked (Some [''B'', ''Z'', ''A'']) 5 False example_state)))
       = [2]
   \<and> indexManager
         (snd (deleteSCD example_env_hooked (Some [''B'', ''Z'', ''A'']) 5 False example_state))
       = [Index_remove 2]"
  by (simp add: example_hooked_deleteSCD)
     (simp add: example_env_hooked_def example_env_def example_config_def example_state_def
        resolve_def)

section \<open>Properties of update bundles: a record without a change\<close>

text \<open>
  The loop of \<^verbatim>\<open>checkRtype_\<close> runs to the end over properties that are in the
  schema and equal to the stored values of the document \<open>d\<close>.
\<close>

lemma checkRtype_loop_unchanged:
  assumes "\<forall>p \<in> set rest. \<not> iequals (fst p) DOCID
             \<and> (\<exists>iter. schema_find (config env) (fst p) = Some iter
                   \<and> getPropertyValue (dm_ops env) (documentManager s) d (propertyName iter)
                       = Some (PV_UString (newPropertyValue (config env) (fst p) (snd p))))"
  shows "checkRtype_loop env s d rest m u = (Loop_end, m, u)"
  using assms
proof (induction rest)
  case Nil
  show ?case by simp
next
  case (Cons p rest)
  obtain n v where p: "p = (n, v)" by (cases p)
  from Cons.prems p obtain iter where
    n: "\<not> iequals n DOCID" and f: "schema_find (config env) n = Some iter"
    and g: "getPropertyValue (dm_ops env) (documentManager s) d (propertyName iter)
              = Some (PV_UString (newPropertyValue (config env) n v))"
    by auto
  have "checkRtype_loop env s d rest m u = (Loop_end, m, u)"
    using Cons.IH Cons.prems by simp
  then show ?case
    by (simp add: p n f g get_UString_def)
qed

text \<open>
  An update record that starts with its DOCID, has no second DOCID property, and whose
  other properties are all in the schema and all equal to what the document manager
  holds for the document of that DOCID: \<^verbatim>\<open>checkRtype_\<close> answers R-type without
  a change, \<^verbatim>\<open>prepareDocument_\<close> returns \<^verbatim>\<open>false\<close>, and the record loop
  passes the record over with every store as it was.
\<close>

lemma prepareDocument_skips_unchanged:
  assumes f: "iequals fieldStr DOCID"
    and sf: "schema_find (config env) fieldStr = Some iter0"
    and h: "md5ToUint128 (config env) a = Some h"
    and r: "resolve (idManager s) h = Some d"
    and rest: "\<forall>p \<in> set rest. \<not> iequals (fst p) DOCID
             \<and> (\<exists>iter. schema_find (config env) (fst p) = Some iter
                   \<and> getPropertyValue (dm_ops env) (documentManager s) d (propertyName iter)
                       = Some (PV_UString (newPropertyValue (config env) (fst p) (snd p))))"
  shows "checkRtype env s ((fieldStr, a) # rest) [] False = Completed (True, [], False)"
    and "prepareDocument env s ((fieldStr, a) # rest) ts False = Prepare_false (idManager s)"
    and "insertOrUpdateSCD_doc env False ts ((fieldStr, a) # rest) interrupted s = (Goes_on, s)"
proof -
  have l: "checkRtype_loop env s d rest [] False = (Loop_end, [], False)"
    using rest by (rule checkRtype_loop_unchanged)
  show c: "checkRtype env s ((fieldStr, a) # rest) [] False = Completed (True, [], False)"
    by (simp add: checkRtype_def f sf h r l)
  have s': "s\<lparr>idManager := idManager s\<rparr> = s" by simp
  show p: "prepareDocument env s ((fieldStr, a) # rest) ts False = Prepare_false (idManager s)"
    by (simp add: prepareDocument_def initial_prepare_vars_def f sf prepare_DOCID_def c Let_def)
  show "insertOrUpdateSCD_doc env False ts ((fieldStr, a) # rest) interrupted s = (Goes_on, s)"
    by (simp add: insertOrUpdateSCD_doc_def p)
qed

text \<open>
  C9 (the code at the failing input). The collection holds document \<open>1\<close> with DOCID
  \<open>A\<close> and Category \<open>shoes\<close>. The update record \<open>Category = shoes, DOCID = A\<close>
  (the DOCID is not the first property) changes nothing, and yet it is not skipped:
  \<^verbatim>\<open>checkRtype_\<close> looks the Category up under its initial \<^verbatim>\<open>docId = 0\<close>,
  finds nothing and answers \<^verbatim>\<open>false\<close>; \<^verbatim>\<open>prepareDocument_\<close> returns
  \<^verbatim>\<open>true\<close> with the new document id \<open>3\<close>; document \<open>1\<close> is removed from the
  document store, a document \<open>3\<close> with the same properties is inserted, and the index
  is updated. The same record with the DOCID first is skipped and leaves both stores as
  they were.
\<close>

theorem C9_unchanged_update_with_late_DOCID_is_reindexed:
  "md5ToUint128 (config example_env) ''A'' = Some 65
   \<and> resolve (idManager example_state) 65 = Some 1
   \<and> getPropertyValue (dm_ops example_env) (documentManager example_state) 1 ''DOCID''
       = Some (PV_UString ''A'')
   \<and> getPropertyValue (dm_ops example_env) (documentManager example_state) 1 ''Category''
       = Some (PV_UString ''shoes'')
   \<and> checkRtype example_env example_state [(''Category'', ''shoes''), (''DOCID'', ''A'')] [] False
       = Completed (False, [], False)
   \<and> (case prepareDocument example_env example_state
              [(''Category'', ''shoes''), (''DOCID'', ''A'')] 5 False of
         Prepare_true v \<Rightarrow> (pv_oldId v, pv_docId v, pv_rType v, pv_insert v) = (1, 3, False, False)
       | Prepare_false idm \<Rightarrow> False
       | Prepare_threw \<Rightarrow> False)
   \<and> fst (insertOrUpdateSCD_doc example_env False 5
              [(''Category'', ''shoes''), (''DOCID'', ''A'')] False example_state) = Goes_on
   \<and> documentManager (snd (insertOrUpdateSCD_doc example_env False 5
              [(''Category'', ''shoes''), (''DOCID'', ''A'')] False example_state))
       = (fst (documentManager example_state) @ [(3, example_doc 3 ''A'')], [1])
   \<and> indexManager (snd (insertOrUpdateSCD_doc example_env False 5
              [(''Category'', ''shoes''), (''DOCID'', ''A'')] False example_state))
       = [Index_update 1 3]
   \<and> prepareDocument example_env example_state
         [(''DOCID'', ''A''), (''Category'', ''shoes'')] 5 False
       = Prepare_false (idManager example_state)
   \<and> documentManager (snd (insertOrUpdateSCD_doc example_env False 5
              [(''DOCID'', ''A''), (''Category'', ''shoes'')] False example_state))
       = documentManager example_state
   \<and> indexManager (snd (insertOrUpdateSCD_doc example_env False 5
              [(''DOCID'', ''A''), (''Category'', ''shoes'')] False example_state))
       = []"
  by code_simp

section \<open>Properties of update bundles: the document id\<close>





lemma createUpdateDocId_None:
  "createUpdateDocId idm h rType = None \<longleftrightarrow> resolve idm h = None"
  by (simp add: createUpdateDocId_def update_existing_def split: option.splits)



lemma updateDoc_rType:
  assumes "\<not> hook_vetoes (hooker env) (\<lambda>h. HookUpdate h document indexDocument ts True)"
    and "getDocument (dm_ops env) (documentManager s) (doc_id document) = Some oldDoc"
    and "\<not> reads_null (config env) document oldDoc"
    and "updatePartialDocument (dm_ops env) (documentManager s) document = (True, dm')"
  shows "updateDoc env document indexDocument ts True s =
           Some (True,
                 s\<lparr>documentManager := dm',
                   indexManager := index_updateRtypeDocument (im_ops env) (indexManager s)
                      (old_index_fields (config env) document oldDoc) indexDocument\<rparr>)"
  using assms by (simp add: updateDoc_def)





















section \<open>Properties of update bundles: the R-type classifier\<close>
















end
